theory Spec2Isabelle
  imports Complex_Main "HOL-Library.Option_ord"
begin

section \<open>The batch dashboard of \<^verbatim>\<open>app.py\<close>\<close>

text \<open>
  The program is one Python file: \<^verbatim>\<open>load_data\<close> reads a CSV file into a pandas
  data frame, \<^verbatim>\<open>calculate_stats\<close> renders five statistics of a series as text, and
  \<^verbatim>\<open>main\<close> lets the operator pick a batch, derives its time window and draws its traces
  and statistics cards.

  Conventions of the embedding:
  \<^item> a pandas float is \<open>NaN\<close> (a missing cell) or a finite value; finite values are
    idealised as real numbers, so the rounding error of binary floating point is not
    part of the model, and infinities do not occur;
  \<^item> an instant is a number of nanoseconds since the epoch, as pandas stores it; the
    missing instant \<^verbatim>\<open>NaT\<close> is \<open>None\<close>;
  \<^item> an exception of the source is a value \<open>Inl e\<close>;
  \<^item> the pandas and Python operations the source calls (\<^verbatim>\<open>mean\<close>, \<^verbatim>\<open>median\<close>,
    \<^verbatim>\<open>max\<close>, \<^verbatim>\<open>min\<close>, \<^verbatim>\<open>std\<close>, \<^verbatim>\<open>unique\<close>, \<^verbatim>\<open>sort\<close>, the format specification
    \<^verbatim>\<open>.2f\<close>) are written out with the defaults the source leaves in force
    (\<^verbatim>\<open>skipna=True\<close>, \<^verbatim>\<open>ddof=1\<close>);
  \<^item> the decorator \<^verbatim>\<open>st.cache_data\<close> of \<^verbatim>\<open>load_data\<close> is state that outlives a run
    of \<^verbatim>\<open>main\<close>: it is passed in and returned;
  \<^item> the styling and layout calls of \<^verbatim>\<open>main\<close> draw the page and compute nothing
    the properties below are about.
\<close>

subsection \<open>Floats and their fixed-point rendering\<close>

datatype pyfloat = NaN | Fin real

text \<open>The non-missing values of a series, in order (\<^verbatim>\<open>dropna\<close>).\<close>

fun dropna :: "pyfloat list \<Rightarrow> real list" where
  "dropna [] = []"
| "dropna (NaN # s) = dropna s"
| "dropna (Fin x # s) = x # dropna s"

definition digit :: "nat \<Rightarrow> char" where
  "digit n = ''0123456789'' ! (n mod 10)"

fun digits_of :: "nat \<Rightarrow> string" where
  "digits_of n = (if n < 10 then [digit n] else digits_of (n div 10) @ [digit n])"

definition zfill :: "nat \<Rightarrow> string \<Rightarrow> string" where
  "zfill w s = replicate (w - length s) (CHR ''0'') @ s"

text \<open>Rounding to the nearest integer, a tie going to the even neighbour.\<close>

definition round_half_even :: "real \<Rightarrow> int" where
  "round_half_even y =
     (let f = \<lfloor>y\<rfloor>; r = y - of_int f
      in if r < 1 / 2 then f else if 1 / 2 < r then f + 1 else if even f then f else f + 1)"

text \<open>
  Python's \<^verbatim>\<open>f"{v:.df}"\<close>: \<^verbatim>\<open>nan\<close> for a NaN, otherwise the sign (kept even when the
  digits round to zero), the integer digits, and \<open>d\<close> fractional digits after a point.
\<close>

definition fixed_digits :: "nat \<Rightarrow> nat \<Rightarrow> string" where
  "fixed_digits d n =
     (if d = 0 then digits_of n
      else digits_of (n div 10 ^ d) @ ''.'' @ zfill d (digits_of (n mod 10 ^ d)))"

definition format_f :: "nat \<Rightarrow> pyfloat \<Rightarrow> string" where
  "format_f d v =
     (case v of
        NaN \<Rightarrow> ''nan''
      | Fin x \<Rightarrow>
          (if x < 0 then ''-'' else []) @ fixed_digits d (nat (round_half_even (\<bar>x\<bar> * 10 ^ d))))"

subsection \<open>The statistics of a series\<close>

text \<open>
  \<^verbatim>\<open>Series.mean()\<close>, \<^verbatim>\<open>median()\<close>, \<^verbatim>\<open>max()\<close>, \<^verbatim>\<open>min()\<close> and \<^verbatim>\<open>std()\<close> skip missing
  cells and return NaN when nothing is left; \<^verbatim>\<open>std\<close> divides by \<open>N - 1\<close> and is NaN
  for fewer than two values.
\<close>

definition series_mean :: "pyfloat list \<Rightarrow> pyfloat" where
  "series_mean s =
     (let xs = dropna s in if xs = [] then NaN else Fin (sum_list xs / real (length xs)))"

definition series_median :: "pyfloat list \<Rightarrow> pyfloat" where
  "series_median s =
     (let xs = sort (dropna s); n = length xs
      in if n = 0 then NaN
         else if odd n then Fin (xs ! (n div 2))
         else Fin ((xs ! (n div 2 - 1) + xs ! (n div 2)) / 2))"

definition series_max :: "pyfloat list \<Rightarrow> pyfloat" where
  "series_max s = (case dropna s of [] \<Rightarrow> NaN | x # xs \<Rightarrow> Fin (fold max xs x))"

definition series_min :: "pyfloat list \<Rightarrow> pyfloat" where
  "series_min s = (case dropna s of [] \<Rightarrow> NaN | x # xs \<Rightarrow> Fin (fold min xs x))"

definition series_std :: "pyfloat list \<Rightarrow> pyfloat" where
  "series_std s =
     (let xs = dropna s; n = length xs
      in if n < 2 then NaN
         else (let m = sum_list xs / real n
               in Fin (sqrt (sum_list (map (\<lambda>x. (x - m)\<^sup>2) xs) / real (n - 1)))))"

text \<open>The dictionary \<^verbatim>\<open>calculate_stats\<close> returns, one field per key.\<close>

record stats =
  Mean :: string
  Median :: string
  Max_s :: string
  Min_s :: string
  Std_Dev :: string

definition calculate_stats :: "pyfloat list \<Rightarrow> stats" where
  "calculate_stats series =
     \<lparr> Mean = format_f 2 (series_mean series),
       Median = format_f 2 (series_median series),
       Max_s = format_f 2 (series_max series),
       Min_s = format_f 2 (series_min series),
       Std_Dev = format_f 4 (series_std series) \<rparr>"

subsection \<open>Reading a rendering back\<close>

text \<open>
  Measuring a rendering: \<open>is_fixed d s\<close> holds when \<open>s\<close> is an optional minus sign, at
  least one digit, a point and exactly \<open>d\<close> digits; \<open>decimal_value s\<close> is the number such
  a text denotes. \<open>is_rendered d s\<close> holds of every text the format specification can
  produce for a float: \<^verbatim>\<open>nan\<close>, \<^verbatim>\<open>inf\<close> and \<^verbatim>\<open>-inf\<close> (the last two for a float
  that has overflowed, which the real numbers of this embedding never do) or a number
  with \<open>d\<close> decimals. None of them is code of the program: they state what its strings
  are.
\<close>

definition is_digit :: "char \<Rightarrow> bool" where
  "is_digit c = (c \<in> set ''0123456789'')"

definition is_fixed :: "nat \<Rightarrow> string \<Rightarrow> bool" where
  "is_fixed d s =
     (let u = (case s of [] \<Rightarrow> [] | c # r \<Rightarrow> if c = CHR ''-'' then r else s)
      in takeWhile is_digit u \<noteq> [] \<and>
         (case dropWhile is_digit u of
            [] \<Rightarrow> False
          | c # fp \<Rightarrow> c = CHR ''.'' \<and> length fp = d \<and> list_all is_digit fp))"


definition digit_val :: "char \<Rightarrow> nat" where
  "digit_val c = length (takeWhile (\<lambda>k. k \<noteq> c) ''0123456789'')"

definition nat_of_digits :: "string \<Rightarrow> nat" where
  "nat_of_digits s = foldl (\<lambda>a c. 10 * a + digit_val c) 0 s"

definition unsigned_value :: "string \<Rightarrow> real" where
  "unsigned_value u =
     real (nat_of_digits (takeWhile (\<lambda>c. c \<noteq> CHR ''.'') u)) +
     real (nat_of_digits (tl (dropWhile (\<lambda>c. c \<noteq> CHR ''.'') u))) /
       10 ^ length (tl (dropWhile (\<lambda>c. c \<noteq> CHR ''.'') u))"

definition decimal_value :: "string \<Rightarrow> real" where
  "decimal_value s =
     (case s of
        [] \<Rightarrow> 0
      | c # r \<Rightarrow> if c = CHR ''-'' then - unsigned_value r else unsigned_value s)"

subsection \<open>The data frame\<close>

text \<open>
  A frame is the list of its column names and its rows. A row carries a cell for every
  column the program names; a cell of a column that is not among \<open>columns\<close> is never
  read, because every access by name goes through \<open>getitem\<close>, which raises
  \<^verbatim>\<open>KeyError\<close> for an absent column as \<^verbatim>\<open>df[name]\<close> does. The type \<open>'t\<close> of the
  \<^verbatim>\<open>Timestamp\<close> cells is \<open>raw_ts\<close> as read from the file and \<open>instant option\<close> once
  \<^verbatim>\<open>pd.to_datetime\<close> has converted the column.
\<close>

type_synonym instant = int

text \<open>
  The exceptions of the program. \<^verbatim>\<open>KeyError\<close> carries the missing key. The text of a
  \<^verbatim>\<open>ValueError\<close> is not modelled: its argument names the call that raised it.
\<close>

datatype exn = FileNotFoundError | KeyError string | ValueError string

text \<open>
  A cell of the \<^verbatim>\<open>Timestamp\<close> column of the file, told apart by what \<^verbatim>\<open>pd.to_datetime\<close>
  does with it: an empty cell becomes \<^verbatim>\<open>NaT\<close>, a date-time text becomes its instant,
  any other text makes the conversion raise.
\<close>

datatype raw_ts = Blank | Stamp instant | Malformed

text \<open>
  A cell of the \<^verbatim>\<open>batch_id\<close> column: a number, or \<open>Missing\<close> for an empty cell, which
  pandas reads as NaN. numpy sorts NaN after every number, \<^verbatim>\<open>unique()\<close> keeps one NaN,
  and \<^verbatim>\<open>==\<close> is false whenever a side is NaN.
\<close>

datatype ident = Id int | Missing

instantiation ident :: linorder
begin

definition less_eq_ident :: "ident \<Rightarrow> ident \<Rightarrow> bool" where
  "less_eq_ident a b =
     (case b of Missing \<Rightarrow> True | Id y \<Rightarrow> (case a of Missing \<Rightarrow> False | Id x \<Rightarrow> x \<le> y))"

definition less_ident :: "ident \<Rightarrow> ident \<Rightarrow> bool" where
  "less_ident a b = (a \<le> b \<and> \<not> b \<le> (a :: ident))"

instance
  by standard (auto simp: less_eq_ident_def less_ident_def split: ident.splits)

end

definition py_eq :: "ident \<Rightarrow> ident \<Rightarrow> bool" where
  "py_eq a b = (case (a, b) of (Id x, Id y) \<Rightarrow> x = y | _ \<Rightarrow> False)"

record 't reading =
  Timestamp :: 't
  batch_id :: ident
  Process_Temp :: pyfloat
  Process_Temp_SP :: pyfloat
  Pressure_SP :: pyfloat
  Inlet_Steam_Pressure :: pyfloat
  Outlet_Steam_Pressure :: pyfloat
  Steam_Flow_Rate :: pyfloat
  QualSteam_Valve_Opening :: pyfloat

record 't frame =
  columns :: "string list"
  rows :: "'t reading list"

definition getitem :: "'t frame \<Rightarrow> string \<Rightarrow> ('t reading \<Rightarrow> 'a) \<Rightarrow> exn + 'a list" where
  "getitem df name cell =
     (if name \<in> set (columns df) then Inr (map cell (rows df)) else Inl (KeyError name))"

subsection \<open>Loading\<close>

text \<open>
  The file \<^verbatim>\<open>data/df_stable_only.csv\<close> is \<open>None\<close> when it does not exist, and the
  frame \<^verbatim>\<open>pd.read_csv\<close> parses from it otherwise.
\<close>

definition read_csv :: "raw_ts frame option \<Rightarrow> exn + raw_ts frame" where
  "read_csv file = (case file of None \<Rightarrow> Inl FileNotFoundError | Some df \<Rightarrow> Inr df)"

fun to_datetime :: "raw_ts list \<Rightarrow> exn + instant option list" where
  "to_datetime [] = Inr []"
| "to_datetime (Malformed # cs) = Inl (ValueError ''to_datetime'')"
| "to_datetime (Blank # cs) = map_sum id ((#) None) (to_datetime cs)"
| "to_datetime (Stamp i # cs) = map_sum id ((#) (Some i)) (to_datetime cs)"

definition with_Timestamp :: "'s reading \<Rightarrow> 't \<Rightarrow> 't reading" where
  "with_Timestamp r t =
     \<lparr> Timestamp = t, batch_id = batch_id r, Process_Temp = Process_Temp r,
       Process_Temp_SP = Process_Temp_SP r, Pressure_SP = Pressure_SP r,
       Inlet_Steam_Pressure = Inlet_Steam_Pressure r,
       Outlet_Steam_Pressure = Outlet_Steam_Pressure r,
       Steam_Flow_Rate = Steam_Flow_Rate r,
       QualSteam_Valve_Opening = QualSteam_Valve_Opening r \<rparr>"

text \<open>\<^verbatim>\<open>df['Timestamp'] = ...\<close> on a frame that has the column: the column is replaced.\<close>

definition setitem_Timestamp :: "'s frame \<Rightarrow> 't list \<Rightarrow> 't frame" where
  "setitem_Timestamp df ts =
     \<lparr> columns = columns df, rows = map2 with_Timestamp (rows df) ts \<rparr>"

text \<open>The handler \<^verbatim>\<open>except FileNotFoundError: return None\<close>; any other exception goes on.\<close>

definition except_FileNotFoundError :: "exn \<Rightarrow> exn + 'a option" where
  "except_FileNotFoundError e = (if e = FileNotFoundError then Inr None else Inl e)"

text \<open>The body of \<^verbatim>\<open>load_data\<close> (lines 70 to 78), which runs when nothing is cached.\<close>

definition load_data_body :: "raw_ts frame option \<Rightarrow> exn + instant option frame option" where
  "load_data_body file =
     (case read_csv file of
        Inl e \<Rightarrow> except_FileNotFoundError e
      | Inr df \<Rightarrow>
          (case getitem df ''Timestamp'' Timestamp of
             Inl e \<Rightarrow> except_FileNotFoundError e
           | Inr col \<Rightarrow>
               (case to_datetime col of
                  Inl e \<Rightarrow> except_FileNotFoundError e
                | Inr ts \<Rightarrow> Inr (Some (setitem_Timestamp df ts)))))"

text \<open>
  The decorator \<^verbatim>\<open>@st.cache_data\<close>. The cache holds the value the function returned
  last, if it has returned: a call with a stored value returns it and does not run
  the body; a call without one runs the body and stores what it returns, \<^verbatim>\<open>None\<close>
  included; an exception leaves the cache as it was. \<^verbatim>\<open>load_data\<close> takes no argument,
  so there is one entry, and the state of the file is no part of its key.
\<close>

definition cache_data :: "('x \<Rightarrow> exn + 'r) \<Rightarrow> 'r option \<Rightarrow> 'x \<Rightarrow> (exn + 'r) \<times> 'r option" where
  "cache_data body cache x =
     (case cache of
        Some r \<Rightarrow> (Inr r, Some r)
      | None \<Rightarrow> (case body x of Inl e \<Rightarrow> (Inl e, None) | Inr r \<Rightarrow> (Inr r, Some r)))"

definition load_data ::
  "instant option frame option option \<Rightarrow> raw_ts frame option \<Rightarrow>
     (exn + instant option frame option) \<times> instant option frame option option" where
  "load_data cache file = cache_data load_data_body cache file"

subsection \<open>Selecting a batch\<close>

text \<open>\<^verbatim>\<open>unique()\<close> keeps the first occurrence of each value; \<^verbatim>\<open>sort()\<close> sorts ascending.\<close>

definition unique :: "'a list \<Rightarrow> 'a list" where
  "unique xs = rev (remdups (rev xs))"

definition unique_batches :: "'b::linorder list \<Rightarrow> 'b list" where
  "unique_batches ids = sort (unique ids)"

text \<open>
  \<^verbatim>\<open>st.sidebar.selectbox\<close> with \<^verbatim>\<open>index=0 if len(unique_batches) > 0 else None\<close>: nothing
  is selected when there is no option; otherwise the operator's pick is one of the
  options, the first one until the operator changes it. A pick outside the list cannot
  be made in the widget and counts as the default.
\<close>

definition selectbox :: "'a list \<Rightarrow> nat \<Rightarrow> 'a option" where
  "selectbox options pick =
     (if options = [] then None
      else Some (options ! (if pick < length options then pick else 0)))"

text \<open>
  \<^verbatim>\<open>df[df['batch_id'] == selected_batch_id]\<close>: the rows whose identifier compares equal
  to the selected one, in the frame's order.
\<close>

definition batch_data :: "'t frame \<Rightarrow> ident \<Rightarrow> 't frame" where
  "batch_data df selected_batch_id =
     \<lparr> columns = columns df,
       rows = filter (\<lambda>r. py_eq (batch_id r) selected_batch_id) (rows df) \<rparr>"

subsection \<open>Time metrics\<close>

fun present :: "'a option list \<Rightarrow> 'a list" where
  "present [] = []"
| "present (None # ts) = present ts"
| "present (Some t # ts) = t # present ts"

text \<open>\<^verbatim>\<open>min()\<close> and \<^verbatim>\<open>max()\<close> of a column of instants skip \<^verbatim>\<open>NaT\<close> and are \<^verbatim>\<open>NaT\<close> when nothing is left.\<close>

definition ts_min :: "instant option list \<Rightarrow> instant option" where
  "ts_min ts = (case present ts of [] \<Rightarrow> None | t # r \<Rightarrow> Some (fold min r t))"

definition ts_max :: "instant option list \<Rightarrow> instant option" where
  "ts_max ts = (case present ts of [] \<Rightarrow> None | t # r \<Rightarrow> Some (fold max r t))"

definition start_time :: "instant option frame \<Rightarrow> instant option" where
  "start_time bd = ts_min (map Timestamp (rows bd))"

definition end_time :: "instant option frame \<Rightarrow> instant option" where
  "end_time bd = ts_max (map Timestamp (rows bd))"

text \<open>
  \<^verbatim>\<open>(end_time - start_time).total_seconds()\<close>: the difference in nanoseconds divided by
  \<open>10\<^sup>9\<close>; with a \<^verbatim>\<open>NaT\<close> on either side the difference is \<^verbatim>\<open>NaT\<close> and its
  \<^verbatim>\<open>total_seconds()\<close> is NaN.
\<close>

definition total_seconds :: "instant option \<Rightarrow> instant option \<Rightarrow> pyfloat" where
  "total_seconds s e =
     (case (s, e) of (Some a, Some b) \<Rightarrow> Fin (real_of_int (b - a) / 10 ^ 9) | _ \<Rightarrow> NaN)"

definition duration :: "instant option frame \<Rightarrow> pyfloat" where
  "duration bd =
     (case total_seconds (start_time bd) (end_time bd) of NaN \<Rightarrow> NaN | Fin x \<Rightarrow> Fin (x / 60))"

text \<open>
  \<^verbatim>\<open>strftime\<close> raises \<^verbatim>\<open>ValueError\<close> on \<^verbatim>\<open>NaT\<close>. The text it renders for an instant
  is not modelled: the instant stands for it.
\<close>

definition strftime :: "instant option \<Rightarrow> exn + instant" where
  "strftime t = (case t of None \<Rightarrow> Inl (ValueError ''strftime'') | Some i \<Rightarrow> Inr i)"

record time_metrics =
  date_str :: instant
  time_range_str :: "instant \<times> instant"
  duration_mins :: pyfloat

text \<open>Lines 122 to 126 of \<^verbatim>\<open>main\<close>, in their order.\<close>

definition calculate_time_metrics :: "instant option frame \<Rightarrow> exn + time_metrics" where
  "calculate_time_metrics bd =
     (case strftime (start_time bd) of
        Inl e \<Rightarrow> Inl e
      | Inr d \<Rightarrow>
          (case strftime (start_time bd) of
             Inl e \<Rightarrow> Inl e
           | Inr a \<Rightarrow>
               (case strftime (end_time bd) of
                  Inl e \<Rightarrow> Inl e
                | Inr b \<Rightarrow>
                    Inr \<lparr> date_str = d, time_range_str = (a, b), duration_mins = duration bd \<rparr>)))"

subsection \<open>Traces and statistics cards\<close>

text \<open>The first exception of a sequence of evaluations, or all their results.\<close>

fun collect :: "(exn + 'a) list \<Rightarrow> exn + 'a list" where
  "collect [] = Inr []"
| "collect (Inl e # rs) = Inl e"
| "collect (Inr a # rs) = map_sum id ((#) a) (collect rs)"

text \<open>
  \<^verbatim>\<open>go.Scatter(x=batch_data['Timestamp'], y=batch_data[col], name=legend)\<close>: the points
  of a trace are the pairs of the two columns, row by row.
\<close>

definition Scatter ::
  "instant option frame \<Rightarrow> string \<Rightarrow> string \<Rightarrow> (instant option reading \<Rightarrow> pyfloat) \<Rightarrow>
     exn + string \<times> (instant option \<times> pyfloat) list" where
  "Scatter bd legend col cell =
     (case getitem bd ''Timestamp'' Timestamp of
        Inl e \<Rightarrow> Inl e
      | Inr x \<Rightarrow> (case getitem bd col cell of Inl e \<Rightarrow> Inl e | Inr y \<Rightarrow> Inr (legend, zip x y)))"

definition figure ::
  "instant option frame \<Rightarrow> exn + (string \<times> (instant option \<times> pyfloat) list) list" where
  "figure bd =
     collect
       [Scatter bd ''Process Temp SP'' ''Process Temp SP'' Process_Temp_SP,
        Scatter bd ''Process Temp'' ''Process Temp'' Process_Temp,
        Scatter bd ''Pressure SP'' ''Pressure SP'' Pressure_SP,
        Scatter bd ''Inlet P1'' ''Inlet Steam Pressure'' Inlet_Steam_Pressure,
        Scatter bd ''Outlet P2'' ''Outlet Steam Pressure'' Outlet_Steam_Pressure,
        Scatter bd ''Flow Rate'' ''Steam Flow Rate'' Steam_Flow_Rate,
        Scatter bd ''Valve %'' ''QualSteam Valve Opening'' QualSteam_Valve_Opening]"

text \<open>
  A card is \<^verbatim>\<open>calculate_stats(batch_data[col])\<close>. The source titles the cards with the
  variable and its unit; here a card is keyed by the name of its column.
\<close>

definition stat_card ::
  "instant option frame \<Rightarrow> string \<Rightarrow> (instant option reading \<Rightarrow> pyfloat) \<Rightarrow>
     exn + string \<times> stats" where
  "stat_card bd col cell =
     (case getitem bd col cell of Inl e \<Rightarrow> Inl e | Inr y \<Rightarrow> Inr (col, calculate_stats y))"

definition stat_cards :: "instant option frame \<Rightarrow> exn + (string \<times> stats) list" where
  "stat_cards bd =
     collect
       [stat_card bd ''Process Temp'' Process_Temp,
        stat_card bd ''Outlet Steam Pressure'' Outlet_Steam_Pressure,
        stat_card bd ''Inlet Steam Pressure'' Inlet_Steam_Pressure,
        stat_card bd ''Steam Flow Rate'' Steam_Flow_Rate,
        stat_card bd ''QualSteam Valve Opening'' QualSteam_Valve_Opening]"

subsection \<open>The page\<close>

datatype stopped = Data_file_not_found | No_batches_available

record page =
  selected_batch :: ident
  metrics :: time_metrics
  duration_text :: string
  traces :: "(string \<times> (instant option \<times> pyfloat) list) list"
  cards :: "(string \<times> stats) list"

datatype outcome = Stopped stopped | Uncaught exn | Rendered page

text \<open>Everything \<^verbatim>\<open>main\<close> does once a batch is selected (lines 118 to 260).\<close>

definition render :: "instant option frame \<Rightarrow> ident \<Rightarrow> outcome" where
  "render df selected_batch_id =
     (let bd = batch_data df selected_batch_id
      in case calculate_time_metrics bd of
           Inl e \<Rightarrow> Uncaught e
         | Inr tm \<Rightarrow>
             (case figure bd of
                Inl e \<Rightarrow> Uncaught e
              | Inr fig \<Rightarrow>
                  (case stat_cards bd of
                     Inl e \<Rightarrow> Uncaught e
                   | Inr cs \<Rightarrow>
                       Rendered
                         \<lparr> selected_batch = selected_batch_id, metrics = tm,
                           duration_text = format_f 2 (duration_mins tm) @ '' mins'',
                           traces = fig, cards = cs \<rparr>)))"

text \<open>
  One run of \<^verbatim>\<open>main\<close>: \<open>cache\<close> is what \<^verbatim>\<open>st.cache_data\<close> holds for \<^verbatim>\<open>load_data\<close>
  when the run starts, \<open>file\<close> is the data file and \<open>pick\<close> the operator's choice in
  the select box; the result is how the run ends and what the cache holds then.
  \<^verbatim>\<open>st.stop()\<close> after \<^verbatim>\<open>st.error\<close> or \<^verbatim>\<open>st.info\<close> ends the run with \<open>Stopped\<close>; an
  exception nobody catches ends it with \<open>Uncaught\<close>.
\<close>

definition main ::
  "instant option frame option option \<Rightarrow> raw_ts frame option \<Rightarrow> nat \<Rightarrow>
     outcome \<times> instant option frame option option" where
  "main cache file pick =
     (case load_data cache file of
        (Inl e, cache') \<Rightarrow> (Uncaught e, cache')
      | (Inr None, cache') \<Rightarrow> (Stopped Data_file_not_found, cache')
      | (Inr (Some df), cache') \<Rightarrow>
          (case getitem df ''batch_id'' batch_id of
             Inl e \<Rightarrow> (Uncaught e, cache')
           | Inr ids \<Rightarrow>
               (case selectbox (unique_batches ids) pick of
                  None \<Rightarrow> (Stopped No_batches_available, cache')
                | Some selected_batch_id \<Rightarrow> (render df selected_batch_id, cache'))))"

subsection \<open>Sample files\<close>

text \<open>
  A file with every column and five rows: batch 1 has three readings of Process Temp,
  72, 70 and 71, taken at minute 2, 0 and 1 and stored in that order; batch 3 has one
  reading with no Process Temp and no time; batch 2 has one reading.
\<close>

definition sample :: "'t \<Rightarrow> ident \<Rightarrow> pyfloat \<Rightarrow> 't reading" where
  "sample t b x =
     \<lparr> Timestamp = t, batch_id = b, Process_Temp = x, Process_Temp_SP = Fin 71,
       Pressure_SP = Fin 2, Inlet_Steam_Pressure = Fin 3, Outlet_Steam_Pressure = Fin 2,
       Steam_Flow_Rate = Fin 100, QualSteam_Valve_Opening = Fin 50 \<rparr>"

definition all_columns :: "string list" where
  "all_columns =
     [''Timestamp'', ''batch_id'', ''Process Temp'', ''Process Temp SP'', ''Pressure SP'',
      ''Inlet Steam Pressure'', ''Outlet Steam Pressure'', ''Steam Flow Rate'',
      ''QualSteam Valve Opening'']"

definition sample_file :: "raw_ts frame" where
  "sample_file =
     \<lparr> columns = all_columns,
       rows = [sample (Stamp 120000000000) (Id 1) (Fin 72), sample (Stamp 0) (Id 1) (Fin 70),
               sample (Stamp 60000000000) (Id 1) (Fin 71), sample Blank (Id 3) NaN,
               sample (Stamp 0) (Id 2) (Fin 5)] \<rparr>"

definition sample_frame :: "instant option frame" where
  "sample_frame =
     \<lparr> columns = all_columns,
       rows = [sample (Some 120000000000) (Id 1) (Fin 72), sample (Some 0) (Id 1) (Fin 70),
               sample (Some 60000000000) (Id 1) (Fin 71), sample None (Id 3) NaN,
               sample (Some 0) (Id 2) (Fin 5)] \<rparr>"

text \<open>The same file without any column but \<^verbatim>\<open>Timestamp\<close>.\<close>

definition bare_file :: "raw_ts frame" where
  "bare_file = \<lparr> columns = [''Timestamp''], rows = [sample (Stamp 0) (Id 1) (Fin 70)] \<rparr>"

text \<open>A file whose second row has an empty \<^verbatim>\<open>batch_id\<close> cell, and the frame loaded from it.\<close>

definition blank_id_file :: "raw_ts frame" where
  "blank_id_file =
     \<lparr> columns = all_columns,
       rows = [sample (Stamp 0) (Id 1) (Fin 70), sample (Stamp 60000000000) Missing (Fin 71)] \<rparr>"

definition blank_id_frame :: "instant option frame" where
  "blank_id_frame =
     \<lparr> columns = all_columns,
       rows = [sample (Some 0) (Id 1) (Fin 70), sample (Some 60000000000) Missing (Fin 71)] \<rparr>"

text \<open>A frame stored in the order of time, its batch 1 at minute 0, 1 and 2.\<close>

definition ordered_frame :: "instant option frame" where
  "ordered_frame =
     \<lparr> columns = all_columns,
       rows = [sample (Some 0) (Id 1) (Fin 70), sample (Some 30000000000) (Id 2) (Fin 5),
               sample (Some 60000000000) (Id 1) (Fin 71),
               sample (Some 120000000000) (Id 1) (Fin 72)] \<rparr>"

section \<open>Properties\<close>

subsection \<open>Evaluation of the rendering on numerals\<close>

declare digits_of.simps [simp del]

lemma digits_of_numeral [simp]:
  "digits_of (numeral k) =
     (if (numeral k :: nat) < 10 then [digit (numeral k)]
      else digits_of (numeral k div 10) @ [digit (numeral k)])"
  by (rule digits_of.simps)

lemma digits_of_0 [simp]: "digits_of 0 = ''0''"
  by (simp add: digits_of.simps digit_def)

lemma digits_of_1 [simp]: "digits_of (Suc 0) = ''1''"
  by (simp add: digits_of.simps digit_def)

lemma replicate_numeral: "replicate (numeral k) x = x # replicate (pred_numeral k) x"
  by (simp add: numeral_eq_Suc)

lemmas format_eval =
  format_f_def fixed_digits_def round_half_even_def digit_def zfill_def replicate_numeral

lemmas stats_eval =
  calculate_stats_def series_mean_def series_median_def series_max_def series_min_def
  series_std_def power2_eq_square

subsection \<open>The shape of a rendered number\<close>

lemma digit_is_digit: "is_digit (digit n)"
  unfolding is_digit_def digit_def by (rule nth_mem) simp

lemma digit_val_digit: "digit_val (digit n) = n mod 10"
proof -
  have "n mod 10 < 10" by simp
  then have "n mod 10 = 0 \<or> n mod 10 = 1 \<or> n mod 10 = 2 \<or> n mod 10 = 3 \<or> n mod 10 = 4 \<or>
    n mod 10 = 5 \<or> n mod 10 = 6 \<or> n mod 10 = 7 \<or> n mod 10 = 8 \<or> n mod 10 = 9"
    by arith
  then show ?thesis
    unfolding digit_def digit_val_def by (elim disjE) simp_all
qed

lemma digits_of_nonempty: "digits_of n \<noteq> []"
  by (subst digits_of.simps) simp

lemma digits_of_digits: "list_all is_digit (digits_of n)"
proof (induction n rule: digits_of.induct)
  case (1 n)
  show ?case
  proof (cases "n < 10")
    case True
    then show ?thesis by (subst digits_of.simps) (simp add: digit_is_digit)
  next
    case False
    with 1 show ?thesis by (subst digits_of.simps) (simp add: digit_is_digit)
  qed
qed

lemma length_digits_of: "0 < k \<Longrightarrow> n < 10 ^ k \<Longrightarrow> length (digits_of n) \<le> k"
proof (induction n arbitrary: k rule: digits_of.induct)
  case (1 n)
  show ?case
  proof (cases "n < 10")
    case True
    with 1(2) show ?thesis by (subst digits_of.simps) simp
  next
    case False
    then obtain j where k: "k = Suc j" using 1(2) by (cases k) auto
    from False 1(3) k have j: "0 < j" by (cases j) auto
    from 1(3) k have "n div 10 < 10 ^ j" by (simp add: less_mult_imp_div_less mult.commute)
    from 1(1)[OF False j this] False k show ?thesis
      by (subst digits_of.simps) simp
  qed
qed

lemma nat_of_digits_append:
  "nat_of_digits (a @ [c]) = 10 * nat_of_digits a + digit_val c"
  by (simp add: nat_of_digits_def)

lemma nat_of_digits_digits_of: "nat_of_digits (digits_of n) = n"
proof (induction n rule: digits_of.induct)
  case (1 n)
  show ?case
  proof (cases "n < 10")
    case True
    then show ?thesis
      by (subst digits_of.simps) (simp add: nat_of_digits_def digit_val_digit)
  next
    case False
    with 1 show ?thesis
      by (subst digits_of.simps) (simp add: nat_of_digits_append digit_val_digit)
  qed
qed

lemma nat_of_digits_zeros: "nat_of_digits (replicate k (CHR ''0'') @ s) = nat_of_digits s"
proof -
  have z: "digit_val (CHR ''0'') = 0" by (simp add: digit_val_def)
  show ?thesis by (induction k) (simp_all add: nat_of_digits_def z)
qed

lemma length_zfill: "length s \<le> w \<Longrightarrow> length (zfill w s) = w"
  by (simp add: zfill_def)

lemma point_not_digit: "\<not> is_digit (CHR ''.'')"
  by (simp add: is_digit_def)

lemma minus_not_digit: "\<not> is_digit (CHR ''-'')"
  by (simp add: is_digit_def)

lemma zfill_digits: "list_all is_digit s \<Longrightarrow> list_all is_digit (zfill w s)"
proof -
  have "is_digit (CHR ''0'')" by (simp add: is_digit_def)
  then show "list_all is_digit s \<Longrightarrow> list_all is_digit (zfill w s)"
    by (auto simp: zfill_def list_all_iff)
qed

lemma fixed_digits_shape:
  assumes "0 < d"
  shows "\<exists>ip fp. fixed_digits d n = ip @ CHR ''.'' # fp \<and> ip \<noteq> [] \<and> list_all is_digit ip \<and>
           length fp = d \<and> list_all is_digit fp \<and>
           nat_of_digits ip = n div 10 ^ d \<and> nat_of_digits fp = n mod 10 ^ d"
proof -
  let ?ip = "digits_of (n div 10 ^ d)"
  let ?fp = "zfill d (digits_of (n mod 10 ^ d))"
  have "length (digits_of (n mod 10 ^ d)) \<le> d"
    using assms by (intro length_digits_of) simp_all
  then have "length ?fp = d" by (rule length_zfill)
  moreover have "nat_of_digits ?fp = n mod 10 ^ d"
    by (simp add: zfill_def nat_of_digits_zeros nat_of_digits_digits_of)
  moreover have "fixed_digits d n = ?ip @ CHR ''.'' # ?fp"
    using assms by (simp add: fixed_digits_def)
  ultimately show ?thesis
    by (intro exI[of _ ?ip] exI[of _ ?fp])
       (simp add: digits_of_nonempty digits_of_digits zfill_digits nat_of_digits_digits_of)
qed

lemma is_fixed_shape:
  assumes "ip \<noteq> []" "list_all is_digit ip" "length fp = d" "list_all is_digit fp"
  shows "is_fixed d (ip @ CHR ''.'' # fp)" "is_fixed d (CHR ''-'' # ip @ CHR ''.'' # fp)"
proof -
  have tw: "takeWhile is_digit (ip @ CHR ''.'' # fp) = ip"
    using assms(2) by (simp add: takeWhile_append2 list_all_iff point_not_digit)
  have dw: "dropWhile is_digit (ip @ CHR ''.'' # fp) = CHR ''.'' # fp"
    using assms(2) by (simp add: dropWhile_append2 list_all_iff point_not_digit)
  obtain c r where ip: "ip = c # r" using assms(1) by (cases ip) auto
  with assms(2) have c: "c \<noteq> CHR ''-''" using minus_not_digit by auto
  have "(case ip @ CHR ''.'' # fp of [] \<Rightarrow> [] | c # r \<Rightarrow> if c = CHR ''-'' then r else ip @ CHR ''.'' # fp)
        = ip @ CHR ''.'' # fp"
    using c by (simp add: ip)
  then show "is_fixed d (ip @ CHR ''.'' # fp)"
    unfolding is_fixed_def using assms by (simp add: tw dw)
  show "is_fixed d (CHR ''-'' # ip @ CHR ''.'' # fp)"
    unfolding is_fixed_def using assms by (simp add: tw dw)
qed

lemma format_f_fixed: "0 < d \<Longrightarrow> is_fixed d (format_f d (Fin x))"
proof -
  assume d: "0 < d"
  obtain ip fp where
    "fixed_digits d (nat (round_half_even (\<bar>x\<bar> * 10 ^ d))) = ip @ CHR ''.'' # fp"
    "ip \<noteq> []" "list_all is_digit ip" "length fp = d" "list_all is_digit fp"
    using fixed_digits_shape[OF d] by blast
  then show ?thesis
    using is_fixed_shape[of ip fp d] by (simp add: format_f_def)
qed

lemma nan_not_fixed: "\<not> is_fixed d ''nan''"
  by (simp add: is_fixed_def is_digit_def)

lemma format_f_Fin_not_nan: "0 < d \<Longrightarrow> format_f d (Fin x) \<noteq> ''nan''"
  using format_f_fixed[of d x] nan_not_fixed[of d] by auto


subsection \<open>The number a rendering denotes\<close>

lemma round_half_even_near: "\<bar>real_of_int (round_half_even y) - y\<bar> \<le> 1 / 2"
proof -
  define f where "f = \<lfloor>y\<rfloor>"
  define r where "r = y - of_int f"
  have r: "0 \<le> r" "r < 1" unfolding r_def f_def by linarith+
  have y: "y = of_int f + r" by (simp add: r_def)
  have rhe: "round_half_even y =
      (if r < 1 / 2 then f else if 1 / 2 < r then f + 1 else if even f then f else f + 1)"
    by (simp add: round_half_even_def Let_def f_def r_def)
  consider "r < 1 / 2" | "1 / 2 < r" | "r = 1 / 2" by linarith
  then show ?thesis
  proof cases
    case 1
    then show ?thesis using r unfolding rhe by (simp add: y)
  next
    case 2
    then show ?thesis using r unfolding rhe by (simp add: y)
  next
    case 3
    then show ?thesis unfolding rhe by (simp add: y)
  qed
qed

lemma round_half_even_nonneg: "0 \<le> y \<Longrightarrow> 0 \<le> round_half_even y"
proof -
  assume "0 \<le> y"
  then have "0 \<le> \<lfloor>y\<rfloor>" by simp
  then show ?thesis unfolding round_half_even_def Let_def by simp
qed

lemma unsigned_value_fixed:
  assumes "0 < d"
  shows "unsigned_value (fixed_digits d n) = real n / 10 ^ d"
proof -
  obtain ip fp where s: "fixed_digits d n = ip @ CHR ''.'' # fp" "list_all is_digit ip"
    "length fp = d" "nat_of_digits ip = n div 10 ^ d" "nat_of_digits fp = n mod 10 ^ d"
    using fixed_digits_shape[OF assms] by blast
  have nd: "\<forall>c\<in>set ip. c \<noteq> CHR ''.''"
    using s(2) point_not_digit by (auto simp: list_all_iff)
  have tw: "takeWhile (\<lambda>c. c \<noteq> CHR ''.'') (ip @ CHR ''.'' # fp) = ip"
    using nd by (simp add: takeWhile_append2)
  have dw: "dropWhile (\<lambda>c. c \<noteq> CHR ''.'') (ip @ CHR ''.'' # fp) = CHR ''.'' # fp"
    using nd by (simp add: dropWhile_append2)
  have "real (n div 10 ^ d) + real (n mod 10 ^ d) / 10 ^ d = real n / 10 ^ d"
  proof -
    have "real n = real (n div 10 ^ d * 10 ^ d + n mod 10 ^ d)"
      by (simp only: div_mult_mod_eq)
    also have "\<dots> = real (n div 10 ^ d) * 10 ^ d + real (n mod 10 ^ d)"
      by (simp only: of_nat_add of_nat_mult of_nat_power of_nat_numeral)
    finally have "real n = real (n div 10 ^ d) * 10 ^ d + real (n mod 10 ^ d)" .
    then show ?thesis by (simp add: field_simps)
  qed
  then show ?thesis
    by (simp add: unsigned_value_def s(1) tw dw s(3) s(4) s(5))
qed

lemma decimal_value_format_f:
  assumes "0 < d"
  shows "decimal_value (format_f d (Fin x)) =
           (if x < 0 then - 1 else 1) * real_of_int (round_half_even (\<bar>x\<bar> * 10 ^ d)) / 10 ^ d"
proof -
  define k where "k = round_half_even (\<bar>x\<bar> * 10 ^ d)"
  let ?n = "nat k"
  have n: "real ?n = real_of_int k"
    using round_half_even_nonneg[of "\<bar>x\<bar> * 10 ^ d"] by (simp add: k_def)
  have f: "format_f d (Fin x) = (if x < 0 then ''-'' else []) @ fixed_digits d ?n"
    by (simp add: format_f_def k_def)
  have goal: "?thesis \<longleftrightarrow> decimal_value (format_f d (Fin x)) =
      (if x < 0 then - 1 else 1) * real_of_int k / 10 ^ d"
    by (simp add: k_def)
  obtain ip fp where s: "fixed_digits d ?n = ip @ CHR ''.'' # fp" "ip \<noteq> []" "list_all is_digit ip"
    using fixed_digits_shape[OF assms] by blast
  then obtain c r where ip: "ip = c # r" by (cases ip) auto
  with s(3) have c: "c \<noteq> CHR ''-''" using minus_not_digit by auto
  show ?thesis
  proof (cases "x < 0")
    case True
    then show ?thesis
      unfolding goal by (simp add: f decimal_value_def unsigned_value_fixed[OF assms] n)
  next
    case False
    have "decimal_value (fixed_digits d ?n) = unsigned_value (fixed_digits d ?n)"
      using c by (simp add: decimal_value_def s(1) ip)
    with False show ?thesis
      unfolding goal by (simp add: f unsigned_value_fixed[OF assms] n)
  qed
qed

lemma decimal_value_near:
  assumes "0 < d"
  shows "\<bar>decimal_value (format_f d (Fin x)) - x\<bar> \<le> 1 / (2 * 10 ^ d)"
proof -
  let ?p = "(10::real) ^ d"
  let ?k = "real_of_int (round_half_even (\<bar>x\<bar> * ?p))"
  have p: "0 < ?p" by simp
  have "\<bar>?k - \<bar>x\<bar> * ?p\<bar> \<le> 1 / 2" by (rule round_half_even_near)
  then have "\<bar>?k - \<bar>x\<bar> * ?p\<bar> / ?p \<le> (1 / 2) / ?p"
    by (rule divide_right_mono) simp
  moreover have "\<bar>?k - \<bar>x\<bar> * ?p\<bar> / ?p = \<bar>?k / ?p - \<bar>x\<bar>\<bar>"
  proof -
    have "\<bar>?k - \<bar>x\<bar> * ?p\<bar> / ?p = \<bar>(?k - \<bar>x\<bar> * ?p) / ?p\<bar>" using p by simp
    also have "(?k - \<bar>x\<bar> * ?p) / ?p = ?k / ?p - \<bar>x\<bar>" by (simp add: diff_divide_distrib)
    finally show ?thesis .
  qed
  ultimately have b: "\<bar>?k / ?p - \<bar>x\<bar>\<bar> \<le> 1 / (2 * ?p)" by simp
  show ?thesis
  proof (cases "x < 0")
    case True
    then have "decimal_value (format_f d (Fin x)) - x = - (?k / ?p - \<bar>x\<bar>)"
      by (simp add: decimal_value_format_f[OF assms])
    then show ?thesis using b by simp
  next
    case False
    then have "decimal_value (format_f d (Fin x)) - x = ?k / ?p - \<bar>x\<bar>"
      by (simp add: decimal_value_format_f[OF assms])
    then show ?thesis using b by simp
  qed
qed


subsection \<open>Statistics of a series with no or one valid sample\<close>

lemma series_no_sample:
  assumes "dropna s = []"
  shows "series_mean s = NaN" "series_median s = NaN" "series_max s = NaN"
    "series_min s = NaN" "series_std s = NaN"
  using assms
  by (simp_all add: series_mean_def series_median_def series_max_def series_min_def
      series_std_def)

lemma series_one_sample:
  assumes "dropna s = [x]"
  shows "series_mean s = Fin x" "series_median s = Fin x" "series_max s = Fin x"
    "series_min s = Fin x" "series_std s = NaN"
  using assms
  by (simp_all add: series_mean_def series_median_def series_max_def series_min_def
      series_std_def)

lemma format_f_NaN: "format_f d NaN = ''nan''"
  by (simp add: format_f_def)

lemma calculate_stats_no_sample:
  "dropna s = [] \<Longrightarrow>
   calculate_stats s =
     \<lparr> Mean = ''nan'', Median = ''nan'', Max_s = ''nan'', Min_s = ''nan'', Std_Dev = ''nan'' \<rparr>"
  by (simp add: calculate_stats_def series_no_sample format_f_NaN)

lemma calculate_stats_one_sample:
  "dropna s = [x] \<Longrightarrow>
   calculate_stats s =
     \<lparr> Mean = format_f 2 (Fin x), Median = format_f 2 (Fin x), Max_s = format_f 2 (Fin x),
       Min_s = format_f 2 (Fin x), Std_Dev = ''nan'' \<rparr>"
  by (simp add: calculate_stats_def series_one_sample format_f_NaN)

text \<open>
  C5. When a variable has no valid sample in the batch (every cell is missing), all five
  statistics are rendered as \<^verbatim>\<open>nan\<close>; when it has exactly one valid sample only the
  standard deviation is, and the other four are numbers, so the caller can tell the two
  outcomes apart.
\<close>

theorem no_sample_all_undefined:
  assumes "dropna s = []" and "dropna t = [x]"
  shows "calculate_stats s =
           \<lparr> Mean = ''nan'', Median = ''nan'', Max_s = ''nan'', Min_s = ''nan'',
             Std_Dev = ''nan'' \<rparr> \<and>
         Std_Dev (calculate_stats t) = ''nan'' \<and>
         Mean (calculate_stats t) \<noteq> ''nan'' \<and> Median (calculate_stats t) \<noteq> ''nan'' \<and>
         Max_s (calculate_stats t) \<noteq> ''nan'' \<and> Min_s (calculate_stats t) \<noteq> ''nan'' \<and>
         calculate_stats s \<noteq> calculate_stats t"
proof -
  have s: "calculate_stats s =
      \<lparr> Mean = ''nan'', Median = ''nan'', Max_s = ''nan'', Min_s = ''nan'', Std_Dev = ''nan'' \<rparr>"
    using assms(1) by (rule calculate_stats_no_sample)
  have t: "calculate_stats t =
      \<lparr> Mean = format_f 2 (Fin x), Median = format_f 2 (Fin x), Max_s = format_f 2 (Fin x),
        Min_s = format_f 2 (Fin x), Std_Dev = ''nan'' \<rparr>"
    using assms(2) by (rule calculate_stats_one_sample)
  have n: "format_f 2 (Fin x) \<noteq> ''nan''" by (rule format_f_Fin_not_nan) simp
  show ?thesis unfolding s t using n by simp
qed

theorem no_sample_all_undefined_witness:
  "dropna [NaN, NaN] = [] \<and> dropna [NaN, Fin 5] = [5] \<and>
   calculate_stats [NaN, NaN] =
     \<lparr> Mean = ''nan'', Median = ''nan'', Max_s = ''nan'', Min_s = ''nan'', Std_Dev = ''nan'' \<rparr> \<and>
   Std_Dev (calculate_stats [NaN, Fin 5]) = ''nan'' \<and>
   Mean (calculate_stats [NaN, Fin 5]) \<noteq> ''nan'' \<and>
   calculate_stats [NaN, NaN] \<noteq> calculate_stats [NaN, Fin 5]"
proof -
  have a: "dropna [NaN, NaN] = []" by simp
  have b: "dropna [NaN, Fin 5] = [5]" by simp
  show ?thesis using a b no_sample_all_undefined [OF a b] by blast
qed

text \<open>
  C6. With exactly one valid sample \<open>x\<close> the computation returns normally: mean, median,
  maximum and minimum are \<open>x\<close> (rendered with two decimals in the result), and the
  standard deviation is NaN, rendered as \<^verbatim>\<open>nan\<close>.
\<close>

theorem one_sample_statistics:
  assumes "dropna s = [x]"
  shows "series_mean s = Fin x \<and> series_median s = Fin x \<and> series_max s = Fin x \<and>
         series_min s = Fin x \<and> series_std s = NaN \<and>
         calculate_stats s =
           \<lparr> Mean = format_f 2 (Fin x), Median = format_f 2 (Fin x),
             Max_s = format_f 2 (Fin x), Min_s = format_f 2 (Fin x), Std_Dev = ''nan'' \<rparr>"
  using assms by (simp add: series_one_sample calculate_stats_one_sample)

theorem one_sample_statistics_witness:
  "dropna [NaN, Fin (143 / 2)] = [143 / 2] \<and>
   series_mean [NaN, Fin (143 / 2)] = Fin (143 / 2) \<and>
   series_std [NaN, Fin (143 / 2)] = NaN \<and>
   calculate_stats [NaN, Fin (143 / 2)] =
     \<lparr> Mean = ''71.50'', Median = ''71.50'', Max_s = ''71.50'', Min_s = ''71.50'',
       Std_Dev = ''nan'' \<rparr>"
proof -
  have a: "dropna [NaN, Fin (143 / 2)] = [143 / 2]" by simp
  have f: "format_f 2 (Fin (143 / 2)) = ''71.50''" by (simp add: format_eval)
  show ?thesis using a one_sample_statistics [OF a] by (simp add: f)
qed




text \<open>
  C7, as the code has it. The statistics leave \<^verbatim>\<open>calculate_stats\<close> as texts rounded to
  two decimals (four for the standard deviation): each text has exactly that many
  decimals and denotes a number within half a unit of the last decimal of the
  statistic. The full-precision value is not returned.
\<close>

theorem statistics_rounded_in_engine:
  "(series_mean s = Fin a \<longrightarrow>
      is_fixed 2 (Mean (calculate_stats s)) \<and>
      \<bar>decimal_value (Mean (calculate_stats s)) - a\<bar> \<le> 1 / 200) \<and>
   (series_median s = Fin b \<longrightarrow>
      is_fixed 2 (Median (calculate_stats s)) \<and>
      \<bar>decimal_value (Median (calculate_stats s)) - b\<bar> \<le> 1 / 200) \<and>
   (series_max s = Fin c \<longrightarrow>
      is_fixed 2 (Max_s (calculate_stats s)) \<and>
      \<bar>decimal_value (Max_s (calculate_stats s)) - c\<bar> \<le> 1 / 200) \<and>
   (series_min s = Fin d \<longrightarrow>
      is_fixed 2 (Min_s (calculate_stats s)) \<and>
      \<bar>decimal_value (Min_s (calculate_stats s)) - d\<bar> \<le> 1 / 200) \<and>
   (series_std s = Fin e \<longrightarrow>
      is_fixed 4 (Std_Dev (calculate_stats s)) \<and>
      \<bar>decimal_value (Std_Dev (calculate_stats s)) - e\<bar> \<le> 1 / 20000)"
proof -
  have two: "is_fixed 2 (format_f 2 (Fin y)) \<and> \<bar>decimal_value (format_f 2 (Fin y)) - y\<bar> \<le> 1 / 200"
    for y
    using format_f_fixed[of 2 y] decimal_value_near[of 2 y] by simp
  have four: "is_fixed 4 (format_f 4 (Fin y)) \<and>
      \<bar>decimal_value (format_f 4 (Fin y)) - y\<bar> \<le> 1 / 20000" for y
    using format_f_fixed[of 4 y] decimal_value_near[of 4 y] by simp
  have c1: "series_mean s = Fin a \<longrightarrow>
      is_fixed 2 (Mean (calculate_stats s)) \<and>
      \<bar>decimal_value (Mean (calculate_stats s)) - a\<bar> \<le> 1 / 200"
    using two[of a] by (simp add: calculate_stats_def)
  have c2: "series_median s = Fin b \<longrightarrow>
      is_fixed 2 (Median (calculate_stats s)) \<and>
      \<bar>decimal_value (Median (calculate_stats s)) - b\<bar> \<le> 1 / 200"
    using two[of b] by (simp add: calculate_stats_def)
  have c3: "series_max s = Fin c \<longrightarrow>
      is_fixed 2 (Max_s (calculate_stats s)) \<and>
      \<bar>decimal_value (Max_s (calculate_stats s)) - c\<bar> \<le> 1 / 200"
    using two[of c] by (simp add: calculate_stats_def)
  have c4: "series_min s = Fin d \<longrightarrow>
      is_fixed 2 (Min_s (calculate_stats s)) \<and>
      \<bar>decimal_value (Min_s (calculate_stats s)) - d\<bar> \<le> 1 / 200"
    using two[of d] by (simp add: calculate_stats_def)
  have c5: "series_std s = Fin e \<longrightarrow>
      is_fixed 4 (Std_Dev (calculate_stats s)) \<and>
      \<bar>decimal_value (Std_Dev (calculate_stats s)) - e\<bar> \<le> 1 / 20000"
    using four[of e] by (simp add: calculate_stats_def)
  from c1 c2 c3 c4 c5 show ?thesis by blast
qed

theorem statistics_rounded_in_engine_witness:
  "series_mean [Fin (1 / 8), NaN] = Fin (1 / 8) \<and>
   Mean (calculate_stats [Fin (1 / 8), NaN]) = ''0.12'' \<and>
   is_fixed 2 ''0.12'' \<and>
   \<bar>decimal_value (Mean (calculate_stats [Fin (1 / 8), NaN])) - 1 / 8\<bar> \<le> 1 / 200"
proof -
  have m: "series_mean [Fin (1 / 8), NaN] = Fin (1 / 8)" by (simp add: series_mean_def)
  have f: "Mean (calculate_stats [Fin (1 / 8), NaN]) = ''0.12''"
    by (simp add: calculate_stats_def m format_eval)
  show ?thesis
    using statistics_rounded_in_engine [of "[Fin (1 / 8), NaN]" "1 / 8"] m f by simp
qed

text \<open>
  C7 as stated fails: two series with different means, \<open>0.001\<close> and \<open>0.002\<close>, get the
  same result, every number in it being \<^verbatim>\<open>0.00\<close>.
\<close>

theorem full_precision_counterexample:
  "series_mean [Fin (1 / 1000)] = Fin (1 / 1000) \<and>
   series_mean [Fin (2 / 1000)] = Fin (2 / 1000) \<and>
   Mean (calculate_stats [Fin (1 / 1000)]) = ''0.00'' \<and>
   calculate_stats [Fin (1 / 1000)] = calculate_stats [Fin (2 / 1000)]"
  by (simp add: stats_eval format_eval)


subsection \<open>Loading the file\<close>

lemmas sample_eval =
  sample_file_def sample_frame_def bare_file_def all_columns_def sample_def
  blank_id_file_def blank_id_frame_def ordered_frame_def

lemmas load_eval =
  load_data_def cache_data_def load_data_body_def read_csv_def getitem_def
  setitem_Timestamp_def with_Timestamp_def except_FileNotFoundError_def

lemmas ident_eval = less_eq_ident_def py_eq_def

lemma to_datetime_ok:
  "Malformed \<notin> set cs \<Longrightarrow> \<exists>ts. to_datetime cs = Inr ts \<and> length ts = length cs"
  by (induction cs rule: to_datetime.induct) auto

lemma to_datetime_bad:
  "Malformed \<in> set cs \<Longrightarrow> to_datetime cs = Inl (ValueError ''to_datetime'')"
  by (induction cs rule: to_datetime.induct) auto

lemma load_data_body_absent: "load_data_body None = Inr None"
  by (simp add: load_eval)

lemma load_data_body_no_Timestamp:
  "''Timestamp'' \<notin> set (columns df) \<Longrightarrow> load_data_body (Some df) = Inl (KeyError ''Timestamp'')"
  by (simp add: load_eval)

lemma load_data_body_Malformed:
  assumes "''Timestamp'' \<in> set (columns df)" and "Malformed \<in> set (map Timestamp (rows df))"
  shows "load_data_body (Some df) = Inl (ValueError ''to_datetime'')"
  using assms(1) to_datetime_bad[OF assms(2)] by (simp add: load_eval)

lemma load_data_body_loads:
  assumes "''Timestamp'' \<in> set (columns df)" and "Malformed \<notin> set (map Timestamp (rows df))"
  shows "\<exists>df'. load_data_body (Some df) = Inr (Some df') \<and> columns df' = columns df \<and>
           length (rows df') = length (rows df)"
proof -
  obtain ts where ts: "to_datetime (map Timestamp (rows df)) = Inr ts"
    "length ts = length (map Timestamp (rows df))"
    using to_datetime_ok[OF assms(2)] by blast
  then show ?thesis using assms(1) by (simp add: load_eval)
qed

lemma load_data_body_present: "load_data_body (Some df) \<noteq> Inr None"
proof (cases "''Timestamp'' \<in> set (columns df)")
  case False
  then show ?thesis by (simp add: load_data_body_no_Timestamp)
next
  case True
  show ?thesis
  proof (cases "Malformed \<in> set (map Timestamp (rows df))")
    case True
    with \<open>''Timestamp'' \<in> set (columns df)\<close> show ?thesis
      by (simp add: load_data_body_Malformed)
  next
    case False
    with \<open>''Timestamp'' \<in> set (columns df)\<close> load_data_body_loads[of df] show ?thesis
      by auto
  qed
qed

lemma load_data_cached: "load_data (Some r) file = (Inr r, Some r)"
  by (simp add: load_data_def cache_data_def)

lemma load_data_uncached:
  "load_data None file =
     (case load_data_body file of Inl e \<Rightarrow> (Inl e, None) | Inr r \<Rightarrow> (Inr r, Some r))"
  by (simp add: load_data_def cache_data_def)

text \<open>
  C4, as the code has it. A call of \<^verbatim>\<open>load_data\<close> that finds nothing cached returns
  \<^verbatim>\<open>None\<close> exactly when the file is absent, and \<^verbatim>\<open>main\<close> then reports the missing
  file and stops. \<^verbatim>\<open>st.cache_data\<close> stores what was returned, \<^verbatim>\<open>None\<close> too, and
  every later call returns the stored value whatever the file is by then. No schema is
  checked: without the \<^verbatim>\<open>Timestamp\<close> column an uncaught \<^verbatim>\<open>KeyError\<close> leaves
  \<^verbatim>\<open>load_data\<close>, an unreadable time text raises \<^verbatim>\<open>ValueError\<close>, and otherwise the
  file loads whatever other columns it lacks; a missing \<^verbatim>\<open>batch_id\<close> column is an
  uncaught \<^verbatim>\<open>KeyError\<close> of \<^verbatim>\<open>main\<close>.
\<close>

theorem load_data_outcomes:
  "(fst (load_data None file) = Inr None \<longleftrightarrow> file = None) \<and>
   load_data None None = (Inr None, Some None) \<and>
   load_data (Some r) file = (Inr r, Some r) \<and>
   main None None pick = (Stopped Data_file_not_found, Some None) \<and>
   main (Some None) file pick = (Stopped Data_file_not_found, Some None) \<and>
   (''Timestamp'' \<notin> set (columns df) \<longrightarrow>
      load_data None (Some df) = (Inl (KeyError ''Timestamp''), None)) \<and>
   (''Timestamp'' \<in> set (columns df) \<and> Malformed \<in> set (map Timestamp (rows df)) \<longrightarrow>
      load_data None (Some df) = (Inl (ValueError ''to_datetime''), None)) \<and>
   (''Timestamp'' \<in> set (columns df) \<and> Malformed \<notin> set (map Timestamp (rows df)) \<longrightarrow>
      (\<exists>df'. load_data None (Some df) = (Inr (Some df'), Some (Some df')) \<and>
         columns df' = columns df \<and> length (rows df') = length (rows df))) \<and>
   (load_data cache dg = (Inr (Some dg'), cache') \<and> ''batch_id'' \<notin> set (columns dg') \<longrightarrow>
      main cache dg pick = (Uncaught (KeyError ''batch_id''), cache'))"
proof -
  have a: "fst (load_data None file) = Inr None \<longleftrightarrow> file = None"
  proof (cases "file")
    case None
    then show ?thesis by (simp add: load_data_uncached load_data_body_absent)
  next
    case (Some g)
    then show ?thesis
      using load_data_body_present[of g]
      by (auto simp: load_data_uncached split: sum.splits)
  qed
  have b: "load_data None None = (Inr None, Some None)"
    by (simp add: load_data_uncached load_data_body_absent)
  have c: "main None None pick = (Stopped Data_file_not_found, Some None)"
    "main (Some None) file pick = (Stopped Data_file_not_found, Some None)"
    by (simp_all add: main_def b load_data_cached)
  have d: "''Timestamp'' \<notin> set (columns df) \<longrightarrow>
      load_data None (Some df) = (Inl (KeyError ''Timestamp''), None)"
    by (simp add: load_data_uncached load_data_body_no_Timestamp)
  have e: "''Timestamp'' \<in> set (columns df) \<and> Malformed \<in> set (map Timestamp (rows df)) \<longrightarrow>
      load_data None (Some df) = (Inl (ValueError ''to_datetime''), None)"
    using load_data_body_Malformed[of df] by (auto simp: load_data_uncached)
  have f: "''Timestamp'' \<in> set (columns df) \<and> Malformed \<notin> set (map Timestamp (rows df)) \<longrightarrow>
      (\<exists>df'. load_data None (Some df) = (Inr (Some df'), Some (Some df')) \<and>
         columns df' = columns df \<and> length (rows df') = length (rows df))"
  proof
    assume h: "''Timestamp'' \<in> set (columns df) \<and> Malformed \<notin> set (map Timestamp (rows df))"
    then obtain df' where "load_data_body (Some df) = Inr (Some df')"
      "columns df' = columns df" "length (rows df') = length (rows df)"
      using load_data_body_loads[of df] by blast
    then show "\<exists>df'. load_data None (Some df) = (Inr (Some df'), Some (Some df')) \<and>
         columns df' = columns df \<and> length (rows df') = length (rows df)"
      by (simp add: load_data_uncached)
  qed
  have g: "load_data cache dg = (Inr (Some dg'), cache') \<and> ''batch_id'' \<notin> set (columns dg') \<longrightarrow>
      main cache dg pick = (Uncaught (KeyError ''batch_id''), cache')"
    by (simp add: main_def getitem_def)
  from a b c d e f g load_data_cached[of r "file"] show ?thesis by blast
qed

theorem load_data_outcomes_witness:
  "load_data None None = (Inr None, Some None) \<and>
   main None None 0 = (Stopped Data_file_not_found, Some None) \<and>
   load_data (Some None) (Some sample_file) = (Inr None, Some None) \<and>
   main (Some None) (Some sample_file) 0 = (Stopped Data_file_not_found, Some None) \<and>
   ''Timestamp'' \<in> set (columns sample_file) \<and>
   Malformed \<notin> set (map Timestamp (rows sample_file)) \<and>
   load_data None (Some sample_file) = (Inr (Some sample_frame), Some (Some sample_frame)) \<and>
   ''Timestamp'' \<notin> set (columns (sample_file\<lparr>columns := [''batch_id'']\<rparr>)) \<and>
   load_data None (Some (sample_file\<lparr>columns := [''batch_id'']\<rparr>)) =
     (Inl (KeyError ''Timestamp''), None) \<and>
   ''batch_id'' \<notin> set [''Timestamp''] \<and>
   main None (Some bare_file) 0 =
     (Uncaught (KeyError ''batch_id''),
      Some (Some \<lparr> columns = [''Timestamp''], rows = [sample (Some 0) (Id 1) (Fin 70)] \<rparr>))"
proof -
  let ?bare = "\<lparr> columns = [''Timestamp''], rows = [sample (Some (0::int)) (Id 1) (Fin 70)] \<rparr>"
  have l: "load_data None (Some sample_file) = (Inr (Some sample_frame), Some (Some sample_frame))"
    by (simp add: load_eval sample_eval)
  have m: "load_data None (Some bare_file) = (Inr (Some ?bare), Some (Some ?bare))"
    by (simp add: load_eval sample_eval)
  have h: "''Timestamp'' \<in> set (columns sample_file)"
    "Malformed \<notin> set (map Timestamp (rows sample_file))"
    "''Timestamp'' \<notin> set (columns (sample_file\<lparr>columns := [''batch_id'']\<rparr>))"
    "''batch_id'' \<notin> set [''Timestamp'']"
    by (simp_all add: sample_eval)
  have t: "load_data None None = (Inr None, Some None) \<and>
      main None None 0 = (Stopped Data_file_not_found, Some None) \<and>
      load_data (Some None) (Some sample_file) = (Inr None, Some None) \<and>
      main (Some None) (Some sample_file) 0 = (Stopped Data_file_not_found, Some None) \<and>
      load_data None (Some (sample_file\<lparr>columns := [''batch_id'']\<rparr>)) =
        (Inl (KeyError ''Timestamp''), None) \<and>
      main None (Some bare_file) 0 = (Uncaught (KeyError ''batch_id''), Some (Some ?bare))"
    using load_data_outcomes [of "Some sample_file" None 0
        "sample_file\<lparr>columns := [''batch_id'']\<rparr>" None "Some bare_file" ?bare "Some (Some ?bare)"]
      h(3) h(4) m
    by simp
  from t l h show ?thesis by blast
qed

text \<open>
  C4 as stated fails twice. With \<^verbatim>\<open>None\<close> in the cache, \<^verbatim>\<open>load_data\<close> returns
  \<^verbatim>\<open>None\<close> although the file is there. And a file that lacks every required column
  but \<^verbatim>\<open>Timestamp\<close> is loaded without any failure; the missing \<^verbatim>\<open>batch_id\<close> column
  then ends \<^verbatim>\<open>main\<close> with an uncaught \<^verbatim>\<open>KeyError\<close>.
\<close>

theorem schema_not_validated_counterexample:
  "load_data (Some None) (Some sample_file) = (Inr None, Some None) \<and>
   ''batch_id'' \<notin> set (columns bare_file) \<and>
   load_data None (Some bare_file) =
     (Inr (Some \<lparr> columns = [''Timestamp''], rows = [sample (Some 0) (Id 1) (Fin 70)] \<rparr>),
      Some (Some \<lparr> columns = [''Timestamp''], rows = [sample (Some 0) (Id 1) (Fin 70)] \<rparr>)) \<and>
   main None (Some bare_file) 0 =
     (Uncaught (KeyError ''batch_id''),
      Some (Some \<lparr> columns = [''Timestamp''], rows = [sample (Some 0) (Id 1) (Fin 70)] \<rparr>))"
  by (simp add: main_def load_eval sample_eval)

subsection \<open>The list of batches\<close>

lemma set_unique_batches: "set (unique_batches ids) = set ids"
  by (simp add: unique_batches_def unique_def)

lemma distinct_unique_batches: "distinct (unique_batches ids)"
  by (simp add: unique_batches_def unique_def)

lemma sorted_unique_batches: "sorted (unique_batches ids)"
  by (simp add: unique_batches_def)

text \<open>
  C8. The options of the select box are the distinct batch identifiers of the frame,
  each once, in ascending order of the identifier type (by value for numbers): the
  identifiers 3, 1, 2 give 1, 2, 3, and 10 comes after 2.
\<close>

theorem unique_batches_ascending_distinct:
  "sorted (unique_batches ids) \<and> distinct (unique_batches ids) \<and>
   set (unique_batches ids) = set ids \<and>
   set (unique_batches (map batch_id (rows df))) = batch_id ` set (rows df) \<and>
   unique_batches [3, 1, 2 :: int] = [1, 2, 3] \<and>
   unique_batches [10, 2, 10 :: int] = [2, 10]"
proof -
  have "unique_batches [3, 1, 2 :: int] = [1, 2, 3]"
    "unique_batches [10, 2, 10 :: int] = [2, 10]"
    by (simp_all add: unique_batches_def unique_def)
  then show ?thesis
    by (simp add: sorted_unique_batches distinct_unique_batches set_unique_batches)
qed

theorem unique_batches_ascending_distinct_witness:
  "unique_batches (map batch_id (rows sample_frame)) = [Id 1, Id 2, Id 3] \<and>
   sorted [Id 1, Id 2, Id 3] \<and> distinct [Id 1, Id 2, Id 3] \<and>
   set [Id 1, Id 2, Id 3] = batch_id ` set (rows sample_frame) \<and>
   unique_batches [Id 3, Missing, Id 1, Missing] = [Id 1, Id 3, Missing] \<and>
   sorted [Id 1, Id 3, Missing]"
proof -
  have u: "unique_batches (map batch_id (rows sample_frame)) = [Id 1, Id 2, Id 3]"
    by (simp add: unique_batches_def unique_def ident_eval sample_eval)
  have v: "unique_batches [Id 3, Missing, Id 1, Missing] = [Id 1, Id 3, Missing]"
    by (simp add: unique_batches_def unique_def ident_eval)
  have a: "sorted [Id 1, Id 2, Id 3] \<and> distinct [Id 1, Id 2, Id 3] \<and>
      set [Id 1, Id 2, Id 3] = batch_id ` set (rows sample_frame)"
    using unique_batches_ascending_distinct [of "map batch_id (rows sample_frame)" sample_frame]
    unfolding u by blast
  have b: "sorted [Id 1, Id 3, Missing]"
    using unique_batches_ascending_distinct [of "[Id 3, Missing, Id 1, Missing]"]
    unfolding v by blast
  from u v a b show ?thesis by blast
qed

subsection \<open>The rows of a batch and its time window\<close>

lemma selectbox_member: "selectbox options pick = Some b \<Longrightarrow> b \<in> set options"
  by (auto simp: selectbox_def split: if_splits)

lemma selectbox_None: "selectbox options pick = None \<longleftrightarrow> options = []"
  by (simp add: selectbox_def)

lemma py_eq_iff: "py_eq a b \<longleftrightarrow> a = b \<and> b \<noteq> Missing"
  by (auto simp: py_eq_def split: ident.splits)

lemma rows_batch_data: "rows (batch_data df b) = filter (\<lambda>r. py_eq (batch_id r) b) (rows df)"
  by (simp add: batch_data_def)

lemma batch_data_empty_iff:
  "rows (batch_data df b) = [] \<longleftrightarrow>
     b = Missing \<or> b \<notin> set (unique_batches (map batch_id (rows df)))"
  by (auto simp: rows_batch_data set_unique_batches filter_empty_conv py_eq_iff)

lemma empty_batch_metrics:
  assumes "present (map Timestamp (rows bd)) = []"
  shows "start_time bd = None" "end_time bd = None" "duration bd = NaN"
    "calculate_time_metrics bd = Inl (ValueError ''strftime'')"
  using assms
  by (simp_all add: start_time_def end_time_def duration_def total_seconds_def ts_min_def
      ts_max_def calculate_time_metrics_def strftime_def)

lemma untimed_render:
  "present (map Timestamp (rows (batch_data df b))) = [] \<Longrightarrow>
   render df b = Uncaught (ValueError ''strftime'')"
  by (simp add: render_def empty_batch_metrics)

text \<open>
  C1, as the code has it. The rows of the selected batch are exactly the rows of the
  frame whose identifier compares equal to it, and \<^verbatim>\<open>==\<close> is false for the missing
  identifier. So the rows are empty exactly when the identifier is the missing one or
  is not in the frame. The program has no batch-not-found outcome: with no row the
  start and the end are \<^verbatim>\<open>NaT\<close>, the duration is NaN, and formatting the start raises
  \<^verbatim>\<open>ValueError\<close>, which nobody catches. The select box offers the identifiers of the
  frame, the missing one among them when a \<^verbatim>\<open>batch_id\<close> cell is empty, and \<^verbatim>\<open>main\<close>
  ends in that \<^verbatim>\<open>ValueError\<close> when the operator picks it.
\<close>

theorem batch_rows_exact_empty_raises:
  "set (rows (batch_data df b)) = {r \<in> set (rows df). py_eq (batch_id r) b} \<and>
   (py_eq a b \<longleftrightarrow> a = b \<and> b \<noteq> Missing) \<and>
   (rows (batch_data df b) = [] \<longleftrightarrow>
      b = Missing \<or> b \<notin> set (unique_batches (map batch_id (rows df)))) \<and>
   (rows (batch_data df b) = [] \<longrightarrow>
      start_time (batch_data df b) = None \<and> end_time (batch_data df b) = None \<and>
      duration (batch_data df b) = NaN \<and>
      calculate_time_metrics (batch_data df b) = Inl (ValueError ''strftime'') \<and>
      render df b = Uncaught (ValueError ''strftime'')) \<and>
   (selectbox (unique_batches (map batch_id (rows df))) pick = Some b \<longrightarrow>
      b \<in> set (map batch_id (rows df))) \<and>
   (selectbox (unique_batches (map batch_id (rows df))) pick = None \<longleftrightarrow> rows df = []) \<and>
   (load_data cache file = (Inr (Some df), cache') \<and> ''batch_id'' \<in> set (columns df) \<and>
    selectbox (unique_batches (map batch_id (rows df))) pick = Some Missing \<longrightarrow>
      main cache file pick = (Uncaught (ValueError ''strftime''), cache'))"
proof -
  have a: "set (rows (batch_data df b)) = {r \<in> set (rows df). py_eq (batch_id r) b}"
    by (simp add: rows_batch_data)
  have c: "rows (batch_data df b) = [] \<longrightarrow>
      start_time (batch_data df b) = None \<and> end_time (batch_data df b) = None \<and>
      duration (batch_data df b) = NaN \<and>
      calculate_time_metrics (batch_data df b) = Inl (ValueError ''strftime'') \<and>
      render df b = Uncaught (ValueError ''strftime'')"
    by (simp add: untimed_render empty_batch_metrics)
  have d: "selectbox (unique_batches (map batch_id (rows df))) pick = Some b \<longrightarrow>
      b \<in> set (map batch_id (rows df))"
    using selectbox_member[of "unique_batches (map batch_id (rows df))" pick b]
      set_unique_batches[of "map batch_id (rows df)"] by blast
  have e: "selectbox (unique_batches (map batch_id (rows df))) pick = None \<longleftrightarrow> rows df = []"
    using set_unique_batches[of "map batch_id (rows df)"]
    by (auto simp: selectbox_None simp del: set_map)
  have m: "rows (batch_data df Missing) = []"
    by (simp add: batch_data_empty_iff)
  have f: "load_data cache file = (Inr (Some df), cache') \<and> ''batch_id'' \<in> set (columns df) \<and>
      selectbox (unique_batches (map batch_id (rows df))) pick = Some Missing \<longrightarrow>
      main cache file pick = (Uncaught (ValueError ''strftime''), cache')"
    by (simp add: main_def getitem_def untimed_render m)
  from a py_eq_iff[of a b] batch_data_empty_iff[of df b] c d e f show ?thesis by blast
qed

theorem batch_rows_exact_empty_raises_witness:
  "rows (batch_data sample_frame (Id 2)) = [sample (Some 0) (Id 2) (Fin 5)] \<and>
   load_data None (Some blank_id_file) =
     (Inr (Some blank_id_frame), Some (Some blank_id_frame)) \<and>
   ''batch_id'' \<in> set (columns blank_id_frame) \<and>
   selectbox (unique_batches (map batch_id (rows blank_id_frame))) 1 = Some Missing \<and>
   rows (batch_data blank_id_frame Missing) = [] \<and>
   render blank_id_frame Missing = Uncaught (ValueError ''strftime'') \<and>
   main None (Some blank_id_file) 1 =
     (Uncaught (ValueError ''strftime''), Some (Some blank_id_frame))"
proof -
  have a: "rows (batch_data sample_frame (Id 2)) = [sample (Some 0) (Id 2) (Fin 5)]"
    by (simp add: rows_batch_data py_eq_def sample_eval)
  have l: "load_data None (Some blank_id_file) =
      (Inr (Some blank_id_frame), Some (Some blank_id_frame))"
    by (simp add: load_eval sample_eval)
  have k: "''batch_id'' \<in> set (columns blank_id_frame)"
    by (simp add: sample_eval)
  have s: "selectbox (unique_batches (map batch_id (rows blank_id_frame))) 1 = Some Missing"
    by (simp add: selectbox_def unique_batches_def unique_def ident_eval sample_eval)
  have t: "rows (batch_data blank_id_frame Missing) = [] \<and>
      render blank_id_frame Missing = Uncaught (ValueError ''strftime'') \<and>
      main None (Some blank_id_file) 1 =
        (Uncaught (ValueError ''strftime''), Some (Some blank_id_frame))"
    using batch_rows_exact_empty_raises [of blank_id_frame Missing Missing 1 None
        "Some blank_id_file" "Some (Some blank_id_frame)"] l k s
    by blast
  from a l k s t show ?thesis by blast
qed

text \<open>
  C1 as stated fails: the second row of the file has an empty \<^verbatim>\<open>batch_id\<close> cell, the
  select box offers the missing identifier as its second entry, and for it the filter
  and the time metrics return normally, with no row, \<^verbatim>\<open>NaT\<close> for both times and NaN
  for the duration; what ends the run is the \<^verbatim>\<open>ValueError\<close> of \<^verbatim>\<open>strftime\<close>, not a
  failure that names the batch.
\<close>

theorem unknown_batch_counterexample:
  "load_data None (Some blank_id_file) =
     (Inr (Some blank_id_frame), Some (Some blank_id_frame)) \<and>
   unique_batches (map batch_id (rows blank_id_frame)) = [Id 1, Missing] \<and>
   selectbox [Id 1, Missing] 1 = Some Missing \<and>
   rows (batch_data blank_id_frame Missing) = [] \<and>
   start_time (batch_data blank_id_frame Missing) = None \<and>
   end_time (batch_data blank_id_frame Missing) = None \<and>
   duration (batch_data blank_id_frame Missing) = NaN \<and>
   main None (Some blank_id_file) 1 =
     (Uncaught (ValueError ''strftime''), Some (Some blank_id_frame))"
proof -
  have l: "load_data None (Some blank_id_file) =
      (Inr (Some blank_id_frame), Some (Some blank_id_frame))"
    by (simp add: load_eval sample_eval)
  have u: "unique_batches (map batch_id (rows blank_id_frame)) = [Id 1, Missing]"
    by (simp add: unique_batches_def unique_def ident_eval sample_eval)
  have s: "selectbox [Id 1, Missing] 1 = Some Missing"
    by (simp add: selectbox_def)
  have r: "rows (batch_data blank_id_frame Missing) = []"
    by (simp add: rows_batch_data py_eq_def sample_eval)
  then have p: "present (map Timestamp (rows (batch_data blank_id_frame Missing))) = []"
    by simp
  have c: "''batch_id'' \<in> set (columns blank_id_frame)"
    by (simp add: sample_eval)
  have g: "getitem blank_id_frame ''batch_id'' batch_id = Inr (map batch_id (rows blank_id_frame))"
    using c by (simp add: getitem_def)
  have m: "main None (Some blank_id_file) 1 =
      (Uncaught (ValueError ''strftime''), Some (Some blank_id_frame))"
    by (simp add: main_def l g u selectbox_def untimed_render[OF p])
  from l u s r m empty_batch_metrics(1-3)[OF p] show ?thesis by blast
qed

lemma set_present: "set (present ts) = {t. Some t \<in> set ts}"
  by (induction ts rule: present.induct) auto

lemma length_present: "length (present ts) \<le> length ts"
  by (induction ts rule: present.induct) auto

lemma fold_min_Min: "fold min r t = Min (insert t (set (r :: 'a::linorder list)))"
  using Min.set_eq_fold[of t r] by simp

lemma fold_max_Max: "fold max r t = Max (insert t (set (r :: 'a::linorder list)))"
  using Max.set_eq_fold[of t r] by simp

lemma ts_min_Min: "present ts \<noteq> [] \<Longrightarrow> ts_min ts = Some (Min (set (present ts)))"
  by (cases "present ts") (simp_all add: ts_min_def fold_min_Min)

lemma ts_max_Max: "present ts \<noteq> [] \<Longrightarrow> ts_max ts = Some (Max (set (present ts)))"
  by (cases "present ts") (simp_all add: ts_max_def fold_max_Max)

lemma Min_le_Max_list: "xs \<noteq> [] \<Longrightarrow> Min (set xs) \<le> Max (set (xs :: int list))"
proof -
  assume "xs \<noteq> []"
  then obtain x where x: "x \<in> set xs" by (cases xs) auto
  have "Min (set xs) \<le> x" using x by simp
  also have "x \<le> Max (set xs)" using x by simp
  finally show ?thesis .
qed

lemma singleton_list_Min_Max:
  assumes "xs \<noteq> []" and "length xs \<le> 1"
  shows "Min (set xs) = Max (set (xs :: int list))"
proof -
  obtain x where "xs = [x]" using assms by (cases xs) auto
  then show ?thesis by simp
qed

text \<open>
  C9, as the code has it. \<open>T\<close> is the set of the instants of the readings of the
  batch; \<^verbatim>\<open>min()\<close> and \<^verbatim>\<open>max()\<close> skip the readings without a time. When the batch has
  a reading with a time, the start and the end of the window are the least and the
  greatest instant, the duration is their difference in minutes, so that sixty times
  the duration is the span in seconds, and the duration is zero when the batch has one
  reading or all its times are one instant. (Values are real numbers here, so the
  round trip is exact.) When no reading of the batch has a time, start and end are
  \<^verbatim>\<open>NaT\<close>, the duration is NaN and not zero, and formatting the start raises
  \<^verbatim>\<open>ValueError\<close>.
\<close>

theorem time_window_of_batch:
  assumes "bd = batch_data df b" and "T = set (present (map Timestamp (rows bd)))"
  shows "T = {t. \<exists>r \<in> set (rows df). py_eq (batch_id r) b \<and> Timestamp r = Some t} \<and>
         (T \<noteq> {} \<longrightarrow>
            start_time bd = Some (Min T) \<and> end_time bd = Some (Max T) \<and> Min T \<le> Max T \<and>
            (\<exists>m. duration bd = Fin m \<and> 0 \<le> m \<and>
               total_seconds (start_time bd) (end_time bd) = Fin (m * 60) \<and>
               m * 60 = real_of_int (Max T - Min T) / 10 ^ 9 \<and>
               (length (rows bd) = 1 \<longrightarrow> m = 0) \<and>
               (card T = 1 \<longrightarrow> m = 0))) \<and>
         (T = {} \<longrightarrow>
            start_time bd = None \<and> end_time bd = None \<and> duration bd = NaN \<and>
            calculate_time_metrics bd = Inl (ValueError ''strftime'') \<and>
            render df b = Uncaught (ValueError ''strftime''))"
proof -
  let ?ts = "map Timestamp (rows bd)"
  have T: "T = {t. \<exists>r \<in> set (rows df). py_eq (batch_id r) b \<and> Timestamp r = Some t}"
    unfolding assms(2) set_present assms(1) rows_batch_data by force
  have timed: "T \<noteq> {} \<longrightarrow>
      start_time bd = Some (Min T) \<and> end_time bd = Some (Max T) \<and> Min T \<le> Max T \<and>
      (\<exists>m. duration bd = Fin m \<and> 0 \<le> m \<and>
         total_seconds (start_time bd) (end_time bd) = Fin (m * 60) \<and>
         m * 60 = real_of_int (Max T - Min T) / 10 ^ 9 \<and>
         (length (rows bd) = 1 \<longrightarrow> m = 0) \<and>
         (card T = 1 \<longrightarrow> m = 0))"
  proof
    assume "T \<noteq> {}"
    then have ne: "present ?ts \<noteq> []" using assms(2) by auto
    have s: "start_time bd = Some (Min T)"
      unfolding start_time_def assms(2) by (rule ts_min_Min[OF ne])
    have e: "end_time bd = Some (Max T)"
      unfolding end_time_def assms(2) by (rule ts_max_Max[OF ne])
    have le: "Min T \<le> Max T"
      unfolding assms(2) by (rule Min_le_Max_list[OF ne])
    define m where "m = real_of_int (Max T - Min T) / 10 ^ 9 / 60"
    have d: "duration bd = Fin m"
      by (simp add: duration_def total_seconds_def s e m_def)
    have m0: "0 \<le> m" using le by (simp add: m_def)
    have ts: "total_seconds (start_time bd) (end_time bd) = Fin (m * 60)"
      by (simp add: total_seconds_def s e m_def)
    have rt: "m * 60 = real_of_int (Max T - Min T) / 10 ^ 9"
      by (simp add: m_def)
    have one: "length (rows bd) = 1 \<longrightarrow> m = 0"
    proof
      assume "length (rows bd) = 1"
      then have "length (present ?ts) \<le> 1" using length_present[of ?ts] by simp
      then have "Min T = Max T"
        unfolding assms(2) by (rule singleton_list_Min_Max[OF ne])
      then show "m = 0" by (simp add: m_def)
    qed
    have same: "card T = 1 \<longrightarrow> m = 0"
    proof
      assume "card T = 1"
      then obtain t where "T = {t}" by (auto simp: card_1_singleton_iff)
      then show "m = 0" by (simp add: m_def)
    qed
    from s e le d m0 ts rt one same
    show "start_time bd = Some (Min T) \<and> end_time bd = Some (Max T) \<and> Min T \<le> Max T \<and>
      (\<exists>m. duration bd = Fin m \<and> 0 \<le> m \<and>
         total_seconds (start_time bd) (end_time bd) = Fin (m * 60) \<and>
         m * 60 = real_of_int (Max T - Min T) / 10 ^ 9 \<and>
         (length (rows bd) = 1 \<longrightarrow> m = 0) \<and>
         (card T = 1 \<longrightarrow> m = 0))"
      by blast
  qed
  have untimed: "T = {} \<longrightarrow>
      start_time bd = None \<and> end_time bd = None \<and> duration bd = NaN \<and>
      calculate_time_metrics bd = Inl (ValueError ''strftime'') \<and>
      render df b = Uncaught (ValueError ''strftime'')"
  proof
    assume "T = {}"
    then have p: "present ?ts = []" using assms(2) by simp
    from empty_batch_metrics[OF p] untimed_render[of df b] p
    show "start_time bd = None \<and> end_time bd = None \<and> duration bd = NaN \<and>
      calculate_time_metrics bd = Inl (ValueError ''strftime'') \<and>
      render df b = Uncaught (ValueError ''strftime'')"
      unfolding assms(1) by blast
  qed
  from T timed untimed show ?thesis by blast
qed

theorem time_window_of_batch_witness:
  "set (present (map Timestamp (rows (batch_data sample_frame (Id 1))))) =
     {120000000000, 0, 60000000000} \<and>
   start_time (batch_data sample_frame (Id 1)) = Some 0 \<and>
   end_time (batch_data sample_frame (Id 1)) = Some 120000000000 \<and>
   duration (batch_data sample_frame (Id 1)) = Fin 2 \<and>
   total_seconds (Some 0) (Some 120000000000) = Fin (2 * 60) \<and>
   length (rows (batch_data sample_frame (Id 2))) = 1 \<and>
   duration (batch_data sample_frame (Id 2)) = Fin 0 \<and>
   set (present (map Timestamp (rows (batch_data sample_frame (Id 3))))) = {} \<and>
   start_time (batch_data sample_frame (Id 3)) = None \<and>
   render sample_frame (Id 3) = Uncaught (ValueError ''strftime'')"
proof -
  have T1: "set (present (map Timestamp (rows (batch_data sample_frame (Id 1))))) =
      {120000000000, 0, 60000000000}"
    by (simp add: rows_batch_data py_eq_def sample_eval)
  have T2: "set (present (map Timestamp (rows (batch_data sample_frame (Id 2))))) = {0}"
    by (simp add: rows_batch_data py_eq_def sample_eval)
  have T3: "set (present (map Timestamp (rows (batch_data sample_frame (Id 3))))) = {}"
    by (simp add: rows_batch_data py_eq_def sample_eval)
  have l2: "length (rows (batch_data sample_frame (Id 2))) = 1"
    by (simp add: rows_batch_data py_eq_def sample_eval)
  have ts: "total_seconds (Some 0) (Some 120000000000) = Fin (2 * 60)"
    by (simp add: total_seconds_def)
  have w1: "start_time (batch_data sample_frame (Id 1)) = Some 0 \<and>
      end_time (batch_data sample_frame (Id 1)) = Some 120000000000 \<and>
      duration (batch_data sample_frame (Id 1)) = Fin 2"
    using time_window_of_batch [OF refl T1 [symmetric]] by auto
  have w2: "duration (batch_data sample_frame (Id 2)) = Fin 0"
    using time_window_of_batch [OF refl T2 [symmetric]] l2 by auto
  have w3: "start_time (batch_data sample_frame (Id 3)) = None \<and>
      render sample_frame (Id 3) = Uncaught (ValueError ''strftime'')"
    using time_window_of_batch [OF refl T3 [symmetric]] by blast
  from T1 l2 ts w1 w2 T3 w3 show ?thesis by blast
qed

text \<open>
  C9 as stated fails: batch 3 of the sample file is among the options of the select
  box and has one reading, whose time cell is empty. Its start and end are \<^verbatim>\<open>NaT\<close>,
  not the time of a reading, its duration is NaN, not zero, and \<^verbatim>\<open>main\<close> ends in an
  uncaught \<^verbatim>\<open>ValueError\<close>.
\<close>

theorem untimed_batch_counterexample:
  "load_data None (Some sample_file) = (Inr (Some sample_frame), Some (Some sample_frame)) \<and>
   unique_batches (map batch_id (rows sample_frame)) = [Id 1, Id 2, Id 3] \<and>
   selectbox [Id 1, Id 2, Id 3] 2 = Some (Id 3) \<and>
   length (rows (batch_data sample_frame (Id 3))) = 1 \<and>
   start_time (batch_data sample_frame (Id 3)) = None \<and>
   end_time (batch_data sample_frame (Id 3)) = None \<and>
   duration (batch_data sample_frame (Id 3)) = NaN \<and>
   duration (batch_data sample_frame (Id 3)) \<noteq> Fin 0 \<and>
   main None (Some sample_file) 2 =
     (Uncaught (ValueError ''strftime''), Some (Some sample_frame))"
proof -
  have l: "load_data None (Some sample_file) =
      (Inr (Some sample_frame), Some (Some sample_frame))"
    by (simp add: load_eval sample_eval)
  have u: "unique_batches (map batch_id (rows sample_frame)) = [Id 1, Id 2, Id 3]"
    by (simp add: unique_batches_def unique_def ident_eval sample_eval)
  have s: "selectbox [Id 1, Id 2, Id 3] 2 = Some (Id 3)"
    by (simp add: selectbox_def)
  have r: "rows (batch_data sample_frame (Id 3)) = [sample None (Id 3) NaN]"
    by (simp add: rows_batch_data py_eq_def sample_eval)
  have p: "present (map Timestamp (rows (batch_data sample_frame (Id 3)))) = []"
    by (simp add: r sample_def)
  have g: "getitem sample_frame ''batch_id'' batch_id = Inr (map batch_id (rows sample_frame))"
    by (simp add: getitem_def sample_frame_def all_columns_def)
  have m: "main None (Some sample_file) 2 =
      (Uncaught (ValueError ''strftime''), Some (Some sample_frame))"
    by (simp add: main_def l g u selectbox_def untimed_render[OF p])
  have d: "duration (batch_data sample_frame (Id 3)) \<noteq> Fin 0"
    by (simp add: empty_batch_metrics(3)[OF p])
  have n: "length (rows (batch_data sample_frame (Id 3))) = 1" by (simp add: r)
  from l u s n m d empty_batch_metrics(1-3)[OF p] show ?thesis by blast
qed

subsection \<open>Traces\<close>

lemma collect_Inr: "collect rs = Inr xs \<Longrightarrow> rs = map Inr xs"
proof (induction rs arbitrary: xs rule: collect.induct)
  case 1
  then show ?case by simp
next
  case (2 e rs)
  then show ?case by simp
next
  case (3 a rs)
  then obtain ys where "collect rs = Inr ys" "xs = a # ys"
    by (cases "collect rs") auto
  with 3 show ?case by simp
qed

lemma collect_map_Inr: "collect (map Inr xs) = Inr xs"
  by (induction xs) simp_all

lemma collect_Inr_iff: "collect rs = Inr xs \<longleftrightarrow> rs = map Inr xs"
  using collect_Inr collect_map_Inr by blast

lemma Scatter_Inr_iff:
  "Scatter bd legend col cell = Inr p \<longleftrightarrow>
     ''Timestamp'' \<in> set (columns bd) \<and> col \<in> set (columns bd) \<and>
     p = (legend, map (\<lambda>r. (Timestamp r, cell r)) (rows bd))"
  by (auto simp: Scatter_def getitem_def zip_map_map zip_same_conv_map)

lemma seven_Inr:
  "[a1, a2, a3, a4, a5, a6, a7] = map Inr fig \<longleftrightarrow>
     (\<exists>p1 p2 p3 p4 p5 p6 p7. fig = [p1, p2, p3, p4, p5, p6, p7] \<and> a1 = Inr p1 \<and>
        a2 = Inr p2 \<and> a3 = Inr p3 \<and> a4 = Inr p4 \<and> a5 = Inr p5 \<and> a6 = Inr p6 \<and> a7 = Inr p7)"
  by (auto simp: Cons_eq_map_conv)

lemma figure_Inr_iff:
  "figure bd = Inr fig \<longleftrightarrow>
     {''Timestamp'', ''Process Temp SP'', ''Process Temp'', ''Pressure SP'',
      ''Inlet Steam Pressure'', ''Outlet Steam Pressure'', ''Steam Flow Rate'',
      ''QualSteam Valve Opening''} \<subseteq> set (columns bd) \<and>
     fig =
       [(''Process Temp SP'', map (\<lambda>r. (Timestamp r, Process_Temp_SP r)) (rows bd)),
        (''Process Temp'', map (\<lambda>r. (Timestamp r, Process_Temp r)) (rows bd)),
        (''Pressure SP'', map (\<lambda>r. (Timestamp r, Pressure_SP r)) (rows bd)),
        (''Inlet P1'', map (\<lambda>r. (Timestamp r, Inlet_Steam_Pressure r)) (rows bd)),
        (''Outlet P2'', map (\<lambda>r. (Timestamp r, Outlet_Steam_Pressure r)) (rows bd)),
        (''Flow Rate'', map (\<lambda>r. (Timestamp r, Steam_Flow_Rate r)) (rows bd)),
        (''Valve %'', map (\<lambda>r. (Timestamp r, QualSteam_Valve_Opening r)) (rows bd))]"
  unfolding figure_def collect_Inr_iff seven_Inr Scatter_Inr_iff by auto

lemma figure_trace:
  assumes "figure bd = Inr fig" and "(legend, pts) \<in> set fig"
  shows "map fst pts = map Timestamp (rows bd)"
proof -
  have "fig =
       [(''Process Temp SP'', map (\<lambda>r. (Timestamp r, Process_Temp_SP r)) (rows bd)),
        (''Process Temp'', map (\<lambda>r. (Timestamp r, Process_Temp r)) (rows bd)),
        (''Pressure SP'', map (\<lambda>r. (Timestamp r, Pressure_SP r)) (rows bd)),
        (''Inlet P1'', map (\<lambda>r. (Timestamp r, Inlet_Steam_Pressure r)) (rows bd)),
        (''Outlet P2'', map (\<lambda>r. (Timestamp r, Outlet_Steam_Pressure r)) (rows bd)),
        (''Flow Rate'', map (\<lambda>r. (Timestamp r, Steam_Flow_Rate r)) (rows bd)),
        (''Valve %'', map (\<lambda>r. (Timestamp r, QualSteam_Valve_Opening r)) (rows bd))]"
    using assms(1) figure_Inr_iff[of bd fig] by blast
  with assms(2) obtain cell where "pts = map (\<lambda>r. (Timestamp r, cell r)) (rows bd)"
    by auto
  then show ?thesis by (simp add: comp_def)
qed

text \<open>
  C2, as the code has it. The figure is drawn exactly when the frame has the time
  column and the seven charted columns, and then its seven traces pair, row by row and
  in the order of the frame's rows, the time of each reading of the batch with its
  value in the column of the trace: nothing sorts them. So a trace is ascending in
  time exactly when the rows of the batch already are, in particular when the frame
  is.
\<close>

theorem traces_in_frame_order:
  "(figure (batch_data df b) = Inr fig \<longleftrightarrow>
      {''Timestamp'', ''Process Temp SP'', ''Process Temp'', ''Pressure SP'',
       ''Inlet Steam Pressure'', ''Outlet Steam Pressure'', ''Steam Flow Rate'',
       ''QualSteam Valve Opening''} \<subseteq> set (columns df) \<and>
      fig =
        [(''Process Temp SP'',
            map (\<lambda>r. (Timestamp r, Process_Temp_SP r))
              (filter (\<lambda>r. py_eq (batch_id r) b) (rows df))),
         (''Process Temp'',
            map (\<lambda>r. (Timestamp r, Process_Temp r))
              (filter (\<lambda>r. py_eq (batch_id r) b) (rows df))),
         (''Pressure SP'',
            map (\<lambda>r. (Timestamp r, Pressure_SP r))
              (filter (\<lambda>r. py_eq (batch_id r) b) (rows df))),
         (''Inlet P1'',
            map (\<lambda>r. (Timestamp r, Inlet_Steam_Pressure r))
              (filter (\<lambda>r. py_eq (batch_id r) b) (rows df))),
         (''Outlet P2'',
            map (\<lambda>r. (Timestamp r, Outlet_Steam_Pressure r))
              (filter (\<lambda>r. py_eq (batch_id r) b) (rows df))),
         (''Flow Rate'',
            map (\<lambda>r. (Timestamp r, Steam_Flow_Rate r))
              (filter (\<lambda>r. py_eq (batch_id r) b) (rows df))),
         (''Valve %'',
            map (\<lambda>r. (Timestamp r, QualSteam_Valve_Opening r))
              (filter (\<lambda>r. py_eq (batch_id r) b) (rows df)))]) \<and>
   (figure (batch_data df b) = Inr fig \<and> (legend, pts) \<in> set fig \<longrightarrow>
      map fst pts = map Timestamp (filter (\<lambda>r. py_eq (batch_id r) b) (rows df)) \<and>
      (sorted (map fst pts) \<longleftrightarrow> sorted (map Timestamp (rows (batch_data df b)))) \<and>
      (sorted (map Timestamp (rows df)) \<longrightarrow> sorted (map fst pts)))"
proof -
  have c: "columns (batch_data df b) = columns df" by (simp add: batch_data_def)
  have a: "figure (batch_data df b) = Inr fig \<longleftrightarrow>
      {''Timestamp'', ''Process Temp SP'', ''Process Temp'', ''Pressure SP'',
       ''Inlet Steam Pressure'', ''Outlet Steam Pressure'', ''Steam Flow Rate'',
       ''QualSteam Valve Opening''} \<subseteq> set (columns df) \<and>
      fig =
        [(''Process Temp SP'',
            map (\<lambda>r. (Timestamp r, Process_Temp_SP r))
              (filter (\<lambda>r. py_eq (batch_id r) b) (rows df))),
         (''Process Temp'',
            map (\<lambda>r. (Timestamp r, Process_Temp r))
              (filter (\<lambda>r. py_eq (batch_id r) b) (rows df))),
         (''Pressure SP'',
            map (\<lambda>r. (Timestamp r, Pressure_SP r))
              (filter (\<lambda>r. py_eq (batch_id r) b) (rows df))),
         (''Inlet P1'',
            map (\<lambda>r. (Timestamp r, Inlet_Steam_Pressure r))
              (filter (\<lambda>r. py_eq (batch_id r) b) (rows df))),
         (''Outlet P2'',
            map (\<lambda>r. (Timestamp r, Outlet_Steam_Pressure r))
              (filter (\<lambda>r. py_eq (batch_id r) b) (rows df))),
         (''Flow Rate'',
            map (\<lambda>r. (Timestamp r, Steam_Flow_Rate r))
              (filter (\<lambda>r. py_eq (batch_id r) b) (rows df))),
         (''Valve %'',
            map (\<lambda>r. (Timestamp r, QualSteam_Valve_Opening r))
              (filter (\<lambda>r. py_eq (batch_id r) b) (rows df)))]"
    unfolding figure_Inr_iff[of "batch_data df b" fig] c rows_batch_data ..
  have t: "figure (batch_data df b) = Inr fig \<and> (legend, pts) \<in> set fig \<longrightarrow>
      map fst pts = map Timestamp (filter (\<lambda>r. py_eq (batch_id r) b) (rows df)) \<and>
      (sorted (map fst pts) \<longleftrightarrow> sorted (map Timestamp (rows (batch_data df b)))) \<and>
      (sorted (map Timestamp (rows df)) \<longrightarrow> sorted (map fst pts))"
  proof
    assume h: "figure (batch_data df b) = Inr fig \<and> (legend, pts) \<in> set fig"
    then have x: "map fst pts = map Timestamp (filter (\<lambda>r. py_eq (batch_id r) b) (rows df))"
      using figure_trace[of "batch_data df b" fig legend pts] by (simp add: rows_batch_data)
    have s: "sorted (map Timestamp (rows df)) \<longrightarrow> sorted (map fst pts)"
      unfolding x by (simp add: sorted_filter)
    from x s
    show "map fst pts = map Timestamp (filter (\<lambda>r. py_eq (batch_id r) b) (rows df)) \<and>
      (sorted (map fst pts) \<longleftrightarrow> sorted (map Timestamp (rows (batch_data df b)))) \<and>
      (sorted (map Timestamp (rows df)) \<longrightarrow> sorted (map fst pts))"
      by (auto simp: rows_batch_data)
  qed
  from a t show ?thesis by blast
qed

theorem traces_in_frame_order_witness:
  "sorted (map Timestamp (rows ordered_frame)) \<and>
   figure (batch_data ordered_frame (Id 1)) =
     Inr [(''Process Temp SP'',
             [(Some 0, Fin 71), (Some 60000000000, Fin 71), (Some 120000000000, Fin 71)]),
          (''Process Temp'',
             [(Some 0, Fin 70), (Some 60000000000, Fin 71), (Some 120000000000, Fin 72)]),
          (''Pressure SP'',
             [(Some 0, Fin 2), (Some 60000000000, Fin 2), (Some 120000000000, Fin 2)]),
          (''Inlet P1'',
             [(Some 0, Fin 3), (Some 60000000000, Fin 3), (Some 120000000000, Fin 3)]),
          (''Outlet P2'',
             [(Some 0, Fin 2), (Some 60000000000, Fin 2), (Some 120000000000, Fin 2)]),
          (''Flow Rate'',
             [(Some 0, Fin 100), (Some 60000000000, Fin 100), (Some 120000000000, Fin 100)]),
          (''Valve %'',
             [(Some 0, Fin 50), (Some 60000000000, Fin 50), (Some 120000000000, Fin 50)])] \<and>
   sorted (map fst
     [(Some (0::int), Fin 70), (Some 60000000000, Fin 71), (Some 120000000000, Fin 72)]) \<and>
   \<not> sorted (map Timestamp (rows (batch_data sample_frame (Id 1)))) \<and>
   \<not> sorted (map fst
     [(Some (120000000000::int), Fin 72), (Some 0, Fin 70), (Some 60000000000, Fin 71)])"
proof -
  let ?fig = "[(''Process Temp SP'',
             [(Some (0::int), Fin 71), (Some 60000000000, Fin 71), (Some 120000000000, Fin 71)]),
          (''Process Temp'',
             [(Some 0, Fin 70), (Some 60000000000, Fin 71), (Some 120000000000, Fin 72)]),
          (''Pressure SP'',
             [(Some 0, Fin 2), (Some 60000000000, Fin 2), (Some 120000000000, Fin 2)]),
          (''Inlet P1'',
             [(Some 0, Fin 3), (Some 60000000000, Fin 3), (Some 120000000000, Fin 3)]),
          (''Outlet P2'',
             [(Some 0, Fin 2), (Some 60000000000, Fin 2), (Some 120000000000, Fin 2)]),
          (''Flow Rate'',
             [(Some 0, Fin 100), (Some 60000000000, Fin 100), (Some 120000000000, Fin 100)]),
          (''Valve %'',
             [(Some 0, Fin 50), (Some 60000000000, Fin 50), (Some 120000000000, Fin 50)])]"
  let ?pts = "[(Some (0::int), Fin 70), (Some 60000000000, Fin 71), (Some 120000000000, Fin 72)]"
  let ?fig1 = "[(''Process Temp SP'',
             [(Some (120000000000::int), Fin 71), (Some 0, Fin 71), (Some 60000000000, Fin 71)]),
          (''Process Temp'',
             [(Some 120000000000, Fin 72), (Some 0, Fin 70), (Some 60000000000, Fin 71)]),
          (''Pressure SP'',
             [(Some 120000000000, Fin 2), (Some 0, Fin 2), (Some 60000000000, Fin 2)]),
          (''Inlet P1'',
             [(Some 120000000000, Fin 3), (Some 0, Fin 3), (Some 60000000000, Fin 3)]),
          (''Outlet P2'',
             [(Some 120000000000, Fin 2), (Some 0, Fin 2), (Some 60000000000, Fin 2)]),
          (''Flow Rate'',
             [(Some 120000000000, Fin 100), (Some 0, Fin 100), (Some 60000000000, Fin 100)]),
          (''Valve %'',
             [(Some 120000000000, Fin 50), (Some 0, Fin 50), (Some 60000000000, Fin 50)])]"
  let ?pts1 = "[(Some (120000000000::int), Fin 72), (Some 0, Fin 70), (Some 60000000000, Fin 71)]"
  have s: "sorted (map Timestamp (rows ordered_frame))"
    by (simp add: sample_eval)
  have c: "{''Timestamp'', ''Process Temp SP'', ''Process Temp'', ''Pressure SP'',
       ''Inlet Steam Pressure'', ''Outlet Steam Pressure'', ''Steam Flow Rate'',
       ''QualSteam Valve Opening''} \<subseteq> set (columns ordered_frame)"
    "{''Timestamp'', ''Process Temp SP'', ''Process Temp'', ''Pressure SP'',
       ''Inlet Steam Pressure'', ''Outlet Steam Pressure'', ''Steam Flow Rate'',
       ''QualSteam Valve Opening''} \<subseteq> set (columns sample_frame)"
    by (simp_all add: sample_eval)
  have r: "filter (\<lambda>r. py_eq (batch_id r) (Id 1)) (rows ordered_frame) =
      [sample (Some 0) (Id 1) (Fin 70), sample (Some 60000000000) (Id 1) (Fin 71),
       sample (Some 120000000000) (Id 1) (Fin 72)]"
    "filter (\<lambda>r. py_eq (batch_id r) (Id 1)) (rows sample_frame) =
      [sample (Some 120000000000) (Id 1) (Fin 72), sample (Some 0) (Id 1) (Fin 70),
       sample (Some 60000000000) (Id 1) (Fin 71)]"
    by (simp_all add: py_eq_def sample_eval)
  have f: "figure (batch_data ordered_frame (Id 1)) = Inr ?fig"
    using traces_in_frame_order [of ordered_frame "Id 1" ?fig] c(1)
    unfolding r by (simp add: sample_def)
  have m: "(''Process Temp'', ?pts) \<in> set ?fig" by simp
  have o: "sorted (map fst ?pts)"
    using traces_in_frame_order [of ordered_frame "Id 1" ?fig "''Process Temp''" ?pts] f m s
    by blast
  have f1: "figure (batch_data sample_frame (Id 1)) = Inr ?fig1"
    using traces_in_frame_order [of sample_frame "Id 1" ?fig1] c(2)
    unfolding r by (simp add: sample_def)
  have m1: "(''Process Temp'', ?pts1) \<in> set ?fig1" by simp
  have n: "\<not> sorted (map Timestamp (rows (batch_data sample_frame (Id 1))))"
    by (simp add: rows_batch_data r sample_def)
  have o1: "\<not> sorted (map fst ?pts1)"
    using traces_in_frame_order [of sample_frame "Id 1" ?fig1 "''Process Temp''" ?pts1] f1 m1 n
    by blast
  from s f o n o1 show ?thesis by blast
qed

text \<open>
  C2 as stated fails: the readings of batch 1 of the sample frame are stored at minute
  2, 0 and 1, and the trace of Process Temp has them in that order.
\<close>

theorem trace_not_sorted_counterexample:
  "Scatter (batch_data sample_frame (Id 1)) ''Process Temp'' ''Process Temp'' Process_Temp =
     Inr (''Process Temp'',
          [(Some 120000000000, Fin 72), (Some 0, Fin 70), (Some 60000000000, Fin 71)]) \<and>
   \<not> sorted (map fst
        [(Some (120000000000::int), Fin 72), (Some 0, Fin 70), (Some 60000000000, Fin 71)])"
  by (simp add: Scatter_def getitem_def batch_data_def py_eq_def sample_eval)

subsection \<open>What the statistics are\<close>

lemma dropna_map_Fin: "dropna (map Fin xs) = xs"
  by (induction xs) auto

lemma calculate_stats_dropna: "calculate_stats s = calculate_stats (map Fin (dropna s))"
  by (simp add: calculate_stats_def series_mean_def series_median_def series_max_def
      series_min_def series_std_def dropna_map_Fin)

lemma series_mean_value:
  assumes "dropna s \<noteq> []"
  shows "\<exists>a. series_mean s = Fin a \<and> a * real (length (dropna s)) = sum_list (dropna s)"
  using assms by (simp add: series_mean_def Let_def)

lemma series_max_value: "dropna s \<noteq> [] \<Longrightarrow> series_max s = Fin (Max (set (dropna s)))"
  by (cases "dropna s") (simp_all add: series_max_def fold_max_Max)

lemma series_min_value: "dropna s \<noteq> [] \<Longrightarrow> series_min s = Fin (Min (set (dropna s)))"
  by (cases "dropna s") (simp_all add: series_min_def fold_min_Min)

lemma series_std_value:
  assumes "2 \<le> length (dropna s)"
  shows "\<exists>a sd. series_mean s = Fin a \<and> series_std s = Fin sd \<and> 0 \<le> sd \<and>
           sd\<^sup>2 * real (length (dropna s) - 1) = (\<Sum>x\<leftarrow>dropna s. (x - a)\<^sup>2)"
proof -
  let ?xs = "dropna s"
  let ?a = "sum_list ?xs / real (length ?xs)"
  let ?q = "(\<Sum>x\<leftarrow>?xs. (x - ?a)\<^sup>2)"
  let ?sd = "sqrt (?q / real (length ?xs - 1))"
  have ne: "?xs \<noteq> []" using assms by auto
  have q: "0 \<le> ?q" by (rule sum_list_nonneg) auto
  have n: "0 < real (length ?xs - 1)" using assms by simp
  have m: "series_mean s = Fin ?a" using ne by (simp add: series_mean_def Let_def)
  have sd: "series_std s = Fin ?sd" using assms by (simp add: series_std_def Let_def)
  have pos: "0 \<le> ?sd" using q n by simp
  have "?sd\<^sup>2 = ?q / real (length ?xs - 1)" using q n by simp
  then have "?sd\<^sup>2 * real (length ?xs - 1) = ?q" using n by simp
  with m sd pos show ?thesis by blast
qed

text \<open>The median splits the values: at most half of them lie below it, at most half above.\<close>

lemma length_filter_mono:
  "(\<And>x. P x \<Longrightarrow> Q x) \<Longrightarrow> length (filter P xs) \<le> length (filter Q xs)"
  by (induction xs) auto

lemma sorted_count_below:
  assumes "sorted ys" and "i < length ys"
  shows "length (filter (\<lambda>x. x < ys ! i) ys) \<le> i"
proof -
  have "\<forall>x \<in> set (drop i ys). \<not> x < ys ! i"
  proof
    fix x assume "x \<in> set (drop i ys)"
    then obtain k where "k < length ys - i" "x = ys ! (i + k)"
      by (auto simp: in_set_conv_nth)
    then have "ys ! i \<le> x" using assms(1) by (simp add: sorted_nth_mono)
    then show "\<not> x < ys ! i" by simp
  qed
  then have d: "filter (\<lambda>x. x < ys ! i) (drop i ys) = []" by (simp add: filter_empty_conv)
  have "filter (\<lambda>x. x < ys ! i) ys = filter (\<lambda>x. x < ys ! i) (take i ys @ drop i ys)"
    by simp
  also have "\<dots> = filter (\<lambda>x. x < ys ! i) (take i ys)"
    unfolding filter_append d by simp
  finally have e: "filter (\<lambda>x. x < ys ! i) ys = filter (\<lambda>x. x < ys ! i) (take i ys)" .
  have "length (filter (\<lambda>x. x < ys ! i) (take i ys)) \<le> length (take i ys)"
    by (rule length_filter_le)
  also have "\<dots> = i" using assms(2) by simp
  finally show ?thesis by (simp only: e)
qed

lemma sorted_count_above:
  assumes "sorted ys" and "i < length ys"
  shows "length (filter (\<lambda>x. ys ! i < x) ys) \<le> length ys - Suc i"
proof -
  have "\<forall>x \<in> set (take (Suc i) ys). \<not> ys ! i < x"
  proof
    fix x assume "x \<in> set (take (Suc i) ys)"
    then obtain k where "k < Suc i" "x = ys ! k"
      using assms(2) by (auto simp: in_set_conv_nth)
    then have "x \<le> ys ! i" using assms by (simp add: sorted_nth_mono)
    then show "\<not> ys ! i < x" by simp
  qed
  then have d: "filter (\<lambda>x. ys ! i < x) (take (Suc i) ys) = []"
    by (simp add: filter_empty_conv)
  have "filter (\<lambda>x. ys ! i < x) ys =
      filter (\<lambda>x. ys ! i < x) (take (Suc i) ys @ drop (Suc i) ys)"
    by (simp only: append_take_drop_id)
  also have "\<dots> = filter (\<lambda>x. ys ! i < x) (drop (Suc i) ys)"
    unfolding filter_append d by simp
  finally have e: "filter (\<lambda>x. ys ! i < x) ys = filter (\<lambda>x. ys ! i < x) (drop (Suc i) ys)" .
  have "length (filter (\<lambda>x. ys ! i < x) (drop (Suc i) ys)) \<le> length (drop (Suc i) ys)"
    by (rule length_filter_le)
  also have "\<dots> = length ys - Suc i" by simp
  finally show ?thesis by (simp only: e)
qed

lemma length_filter_sort: "length (filter P (sort xs)) = length (filter P xs)"
  by (simp add: filter_sort)

lemma series_median_value:
  assumes "dropna s \<noteq> []"
  shows "\<exists>m. series_median s = Fin m \<and>
           2 * length (filter (\<lambda>x. x < m) (dropna s)) \<le> length (dropna s) \<and>
           2 * length (filter (\<lambda>x. m < x) (dropna s)) \<le> length (dropna s)"
proof -
  define ys where "ys = sort (dropna s)"
  define n where "n = length ys"
  have n: "n = length (dropna s)" "0 < n" using assms by (simp_all add: n_def ys_def)
  have srt: "sorted ys" by (simp add: ys_def)
  have yne: "ys \<noteq> []" using n(2) by (auto simp: n_def)
  have cnt: "length (filter P (dropna s)) = length (filter P ys)" for P
    by (simp add: ys_def length_filter_sort)
  show ?thesis
  proof (cases "odd n")
    case True
    define m where "m = ys ! (n div 2)"
    have i: "n div 2 < length ys" using n(2) by (simp add: n_def)
    have med: "series_median s = Fin m"
      using True yne by (simp add: series_median_def Let_def ys_def[symmetric] n_def[symmetric] m_def)
    have lo: "length (filter (\<lambda>x. x < m) ys) \<le> n div 2"
      unfolding m_def by (rule sorted_count_below[OF srt i])
    have "length (filter (\<lambda>x. m < x) ys) \<le> length ys - Suc (n div 2)"
      unfolding m_def by (rule sorted_count_above[OF srt i])
    then have hi: "length (filter (\<lambda>x. m < x) ys) \<le> n div 2"
      using True by (auto simp: n_def[symmetric] elim!: oddE)
    from med lo hi show ?thesis
      unfolding cnt n(1)[symmetric] by (intro exI[of _ m]) auto
  next
    case False
    define k where "k = n div 2"
    have k: "n = 2 * k" "0 < k" using False n(2) by (auto simp: k_def elim!: evenE)
    define m where "m = (ys ! (k - 1) + ys ! k) / 2"
    have i: "k < length ys" "k - 1 < length ys" using k by (simp_all add: n_def[symmetric])
    have med: "series_median s = Fin m"
      using False yne
      by (simp add: series_median_def Let_def ys_def[symmetric] n_def[symmetric] m_def k_def)
    have ord: "ys ! (k - 1) \<le> ys ! k" using srt i by (simp add: sorted_nth_mono)
    have b: "ys ! (k - 1) \<le> m" "m \<le> ys ! k" using ord by (simp_all add: m_def)
    have "length (filter (\<lambda>x. x < m) ys) \<le> length (filter (\<lambda>x. x < ys ! k) ys)"
      using b(2) by (intro length_filter_mono) simp
    also have "\<dots> \<le> k" by (rule sorted_count_below[OF srt i(1)])
    finally have lo: "length (filter (\<lambda>x. x < m) ys) \<le> k" .
    have "length (filter (\<lambda>x. m < x) ys) \<le> length (filter (\<lambda>x. ys ! (k - 1) < x) ys)"
      using b(1) by (intro length_filter_mono) simp
    also have "\<dots> \<le> length ys - Suc (k - 1)" by (rule sorted_count_above[OF srt i(2)])
    also have "\<dots> = k" using k by (simp add: n_def[symmetric])
    finally have hi: "length (filter (\<lambda>x. m < x) ys) \<le> k" .
    from med lo hi show ?thesis
      unfolding cnt n(1)[symmetric] k(1) by (intro exI[of _ m]) auto
  qed
qed

lemma stat_cards_value:
  assumes "{''Process Temp'', ''Outlet Steam Pressure'', ''Inlet Steam Pressure'',
            ''Steam Flow Rate'', ''QualSteam Valve Opening''} \<subseteq> set (columns bd)"
  shows "stat_cards bd =
           Inr [(''Process Temp'', calculate_stats (map Process_Temp (rows bd))),
                (''Outlet Steam Pressure'', calculate_stats (map Outlet_Steam_Pressure (rows bd))),
                (''Inlet Steam Pressure'', calculate_stats (map Inlet_Steam_Pressure (rows bd))),
                (''Steam Flow Rate'', calculate_stats (map Steam_Flow_Rate (rows bd))),
                (''QualSteam Valve Opening'',
                   calculate_stats (map QualSteam_Valve_Opening (rows bd)))]"
  using assms by (simp add: stat_cards_def stat_card_def getitem_def)

text \<open>
  C3, as the code has it. The cards hold the statistics of the five measured variables,
  in the order of the source; the two setpoints are charted and get no card. The
  statistics of a series depend on its non-missing values only: the mean is their sum
  over their number \<open>N\<close>, the median has at most half of them on either side, maximum
  and minimum are their greatest and least, and the standard deviation is the
  non-negative root of the sum of squared deviations from the mean over \<open>N - 1\<close>.
\<close>

theorem measured_variables_statistics:
  assumes "{''Process Temp'', ''Outlet Steam Pressure'', ''Inlet Steam Pressure'',
            ''Steam Flow Rate'', ''QualSteam Valve Opening''} \<subseteq> set (columns bd)"
  shows "stat_cards bd =
           Inr [(''Process Temp'', calculate_stats (map Process_Temp (rows bd))),
                (''Outlet Steam Pressure'', calculate_stats (map Outlet_Steam_Pressure (rows bd))),
                (''Inlet Steam Pressure'', calculate_stats (map Inlet_Steam_Pressure (rows bd))),
                (''Steam Flow Rate'', calculate_stats (map Steam_Flow_Rate (rows bd))),
                (''QualSteam Valve Opening'',
                   calculate_stats (map QualSteam_Valve_Opening (rows bd)))] \<and>
         calculate_stats s = calculate_stats (map Fin (dropna s)) \<and>
         (dropna s \<noteq> [] \<longrightarrow>
            (\<exists>a m. series_mean s = Fin a \<and>
               a * real (length (dropna s)) = sum_list (dropna s) \<and>
               series_median s = Fin m \<and>
               2 * length (filter (\<lambda>x. x < m) (dropna s)) \<le> length (dropna s) \<and>
               2 * length (filter (\<lambda>x. m < x) (dropna s)) \<le> length (dropna s) \<and>
               series_max s = Fin (Max (set (dropna s))) \<and>
               series_min s = Fin (Min (set (dropna s))))) \<and>
         (2 \<le> length (dropna s) \<longrightarrow>
            (\<exists>a sd. series_mean s = Fin a \<and> series_std s = Fin sd \<and> 0 \<le> sd \<and>
               sd\<^sup>2 * real (length (dropna s) - 1) = (\<Sum>x\<leftarrow>dropna s. (x - a)\<^sup>2)))"
proof -
  have one: "dropna s \<noteq> [] \<longrightarrow>
      (\<exists>a m. series_mean s = Fin a \<and>
         a * real (length (dropna s)) = sum_list (dropna s) \<and>
         series_median s = Fin m \<and>
         2 * length (filter (\<lambda>x. x < m) (dropna s)) \<le> length (dropna s) \<and>
         2 * length (filter (\<lambda>x. m < x) (dropna s)) \<le> length (dropna s) \<and>
         series_max s = Fin (Max (set (dropna s))) \<and>
         series_min s = Fin (Min (set (dropna s))))"
  proof
    assume ne: "dropna s \<noteq> []"
    obtain a where a: "series_mean s = Fin a"
      "a * real (length (dropna s)) = sum_list (dropna s)"
      using series_mean_value[OF ne] by blast
    obtain m where m: "series_median s = Fin m"
      "2 * length (filter (\<lambda>x. x < m) (dropna s)) \<le> length (dropna s)"
      "2 * length (filter (\<lambda>x. m < x) (dropna s)) \<le> length (dropna s)"
      using series_median_value[OF ne] by blast
    from a m series_max_value[OF ne] series_min_value[OF ne]
    show "\<exists>a m. series_mean s = Fin a \<and>
         a * real (length (dropna s)) = sum_list (dropna s) \<and>
         series_median s = Fin m \<and>
         2 * length (filter (\<lambda>x. x < m) (dropna s)) \<le> length (dropna s) \<and>
         2 * length (filter (\<lambda>x. m < x) (dropna s)) \<le> length (dropna s) \<and>
         series_max s = Fin (Max (set (dropna s))) \<and>
         series_min s = Fin (Min (set (dropna s)))"
      by blast
  qed
  have two: "2 \<le> length (dropna s) \<longrightarrow>
      (\<exists>a sd. series_mean s = Fin a \<and> series_std s = Fin sd \<and> 0 \<le> sd \<and>
         sd\<^sup>2 * real (length (dropna s) - 1) = (\<Sum>x\<leftarrow>dropna s. (x - a)\<^sup>2))"
    using series_std_value[of s] by blast
  from stat_cards_value[OF assms] calculate_stats_dropna[of s] one two
  show ?thesis by blast
qed

theorem measured_variables_statistics_witness:
  "{''Process Temp'', ''Outlet Steam Pressure'', ''Inlet Steam Pressure'',
    ''Steam Flow Rate'', ''QualSteam Valve Opening''}
     \<subseteq> set (columns (batch_data sample_frame (Id 1))) \<and>
   map Process_Temp (rows (batch_data sample_frame (Id 1))) = [Fin 72, Fin 70, Fin 71] \<and>
   stat_cards (batch_data sample_frame (Id 1)) =
     Inr [(''Process Temp'',
             \<lparr> Mean = ''71.00'', Median = ''71.00'', Max_s = ''72.00'', Min_s = ''70.00'',
               Std_Dev = ''1.0000'' \<rparr>),
          (''Outlet Steam Pressure'',
             \<lparr> Mean = ''2.00'', Median = ''2.00'', Max_s = ''2.00'', Min_s = ''2.00'',
               Std_Dev = ''0.0000'' \<rparr>),
          (''Inlet Steam Pressure'',
             \<lparr> Mean = ''3.00'', Median = ''3.00'', Max_s = ''3.00'', Min_s = ''3.00'',
               Std_Dev = ''0.0000'' \<rparr>),
          (''Steam Flow Rate'',
             \<lparr> Mean = ''100.00'', Median = ''100.00'', Max_s = ''100.00'', Min_s = ''100.00'',
               Std_Dev = ''0.0000'' \<rparr>),
          (''QualSteam Valve Opening'',
             \<lparr> Mean = ''50.00'', Median = ''50.00'', Max_s = ''50.00'', Min_s = ''50.00'',
               Std_Dev = ''0.0000'' \<rparr>)] \<and>
   calculate_stats [Fin 72, NaN, Fin 70, Fin 71] = calculate_stats [Fin 72, Fin 70, Fin 71] \<and>
   series_mean [Fin 72, NaN, Fin 70, Fin 71] = Fin 71 \<and>
   series_std [Fin 72, NaN, Fin 70, Fin 71] = Fin 1"
proof -
  let ?bd = "batch_data sample_frame (Id 1)"
  have h: "{''Process Temp'', ''Outlet Steam Pressure'', ''Inlet Steam Pressure'',
      ''Steam Flow Rate'', ''QualSteam Valve Opening''} \<subseteq> set (columns ?bd)"
    by (simp add: batch_data_def py_eq_def sample_eval)
  have r: "map Process_Temp (rows ?bd) = [Fin 72, Fin 70, Fin 71]"
    "map Outlet_Steam_Pressure (rows ?bd) = [Fin 2, Fin 2, Fin 2]"
    "map Inlet_Steam_Pressure (rows ?bd) = [Fin 3, Fin 3, Fin 3]"
    "map Steam_Flow_Rate (rows ?bd) = [Fin 100, Fin 100, Fin 100]"
    "map QualSteam_Valve_Opening (rows ?bd) = [Fin 50, Fin 50, Fin 50]"
    by (simp_all add: batch_data_def py_eq_def sample_eval)
  have c1: "calculate_stats [Fin 72, Fin 70, Fin 71] =
      \<lparr> Mean = ''71.00'', Median = ''71.00'', Max_s = ''72.00'', Min_s = ''70.00'',
        Std_Dev = ''1.0000'' \<rparr>"
    by (simp add: stats_eval format_eval)
  have c2: "calculate_stats [Fin 2, Fin 2, Fin 2] =
      \<lparr> Mean = ''2.00'', Median = ''2.00'', Max_s = ''2.00'', Min_s = ''2.00'',
        Std_Dev = ''0.0000'' \<rparr>"
    by (simp add: stats_eval format_eval)
  have c3: "calculate_stats [Fin 3, Fin 3, Fin 3] =
      \<lparr> Mean = ''3.00'', Median = ''3.00'', Max_s = ''3.00'', Min_s = ''3.00'',
        Std_Dev = ''0.0000'' \<rparr>"
    by (simp add: stats_eval format_eval)
  have c4: "calculate_stats [Fin 100, Fin 100, Fin 100] =
      \<lparr> Mean = ''100.00'', Median = ''100.00'', Max_s = ''100.00'', Min_s = ''100.00'',
        Std_Dev = ''0.0000'' \<rparr>"
    by (simp add: stats_eval format_eval)
  have c5: "calculate_stats [Fin 50, Fin 50, Fin 50] =
      \<lparr> Mean = ''50.00'', Median = ''50.00'', Max_s = ''50.00'', Min_s = ''50.00'',
        Std_Dev = ''0.0000'' \<rparr>"
    by (simp add: stats_eval format_eval)
  have m: "series_mean [Fin 72, NaN, Fin 70, Fin 71] = Fin 71"
    "series_std [Fin 72, NaN, Fin 70, Fin 71] = Fin 1"
    by (simp_all add: stats_eval)
  have t: "stat_cards ?bd =
      Inr [(''Process Temp'', calculate_stats (map Process_Temp (rows ?bd))),
           (''Outlet Steam Pressure'', calculate_stats (map Outlet_Steam_Pressure (rows ?bd))),
           (''Inlet Steam Pressure'', calculate_stats (map Inlet_Steam_Pressure (rows ?bd))),
           (''Steam Flow Rate'', calculate_stats (map Steam_Flow_Rate (rows ?bd))),
           (''QualSteam Valve Opening'',
              calculate_stats (map QualSteam_Valve_Opening (rows ?bd)))] \<and>
      calculate_stats [Fin 72, NaN, Fin 70, Fin 71] =
        calculate_stats (map Fin (dropna [Fin 72, NaN, Fin 70, Fin 71]))"
    using measured_variables_statistics [OF h, of "[Fin 72, NaN, Fin 70, Fin 71]"] by blast
  have d: "map Fin (dropna [Fin 72, NaN, Fin 70, Fin 71]) = [Fin 72, Fin 70, Fin 71]"
    by simp
  from h r(1) t m show ?thesis
    unfolding r d c1 c2 c3 c4 c5 by blast
qed

text \<open>
  C3 as stated fails: the sample frame has the columns of both setpoints, and the cards
  of its batch 1 are those of the five measured variables only.
\<close>

theorem setpoints_without_statistics_counterexample:
  "''Process Temp SP'' \<in> set (columns (batch_data sample_frame (Id 1))) \<and>
   ''Pressure SP'' \<in> set (columns (batch_data sample_frame (Id 1))) \<and>
   map_sum id (map fst) (stat_cards (batch_data sample_frame (Id 1))) =
     Inr [''Process Temp'', ''Outlet Steam Pressure'', ''Inlet Steam Pressure'',
          ''Steam Flow Rate'', ''QualSteam Valve Opening''] \<and>
   ''Process Temp SP'' \<notin> set [''Process Temp'', ''Outlet Steam Pressure'',
      ''Inlet Steam Pressure'', ''Steam Flow Rate'', ''QualSteam Valve Opening''] \<and>
   ''Pressure SP'' \<notin> set [''Process Temp'', ''Outlet Steam Pressure'',
      ''Inlet Steam Pressure'', ''Steam Flow Rate'', ''QualSteam Valve Opening'']"
  by (simp add: stat_cards_def stat_card_def getitem_def batch_data_def sample_file_def
      sample_frame_def all_columns_def py_eq_def)



end
